theory Spec2Isabelle
  imports Complex_Main
begin

section \<open>The RSI strategy of strategies.py\<close>

text \<open>
  The strategy works on Python floats. They are modelled as exact real numbers:
  rounding, infinities and NaN values inside the price data are outside the model. The
  one NaN the code itself produces (the first entry of \<open>df['close'].diff()\<close>) is
  modelled explicitly, as \<open>None\<close>.
\<close>

subsection \<open>Data\<close>

text \<open>\<open>RSIConfig\<close>, with the field types of the dataclass.\<close>

record rsi_config =
  rsi_period :: int
  oversold :: int
  overbought :: int
  stop_loss :: real
  take_profit :: real
  risk_percentage :: real
  ema_window :: int

text \<open>
  One row of the OHLCV frame built by \<open>fetch_data\<close>
  (columns timestamp, open, high, low, close, volume).
\<close>

record bar =
  bar_timestamp :: int
  bar_open :: real
  bar_high :: real
  bar_low :: real
  bar_close :: real
  bar_volume :: real

text \<open>
  The data frame: its rows, and the \<open>rsi\<close> column, absent (\<open>None\<close>) until
  \<open>_calculate_rsi_wilders\<close> assigns \<open>df['rsi']\<close>.
\<close>

record dataframe =
  rows :: "bar list"
  rsi :: "real list option"

datatype signal = BUY | SELL | HOLD

datatype error =
    InsufficientFunds
  | NetworkError
  | ExchangeError
  | ZeroDivisionError
  | ValueError
  | IndexError
  | KeyError
  | AttributeError

subsection \<open>The oscillator: \<open>_calculate_rsi_wilders\<close>\<close>

text \<open>
  \<open>Series.diff()\<close>: the first entry is NaN (here \<open>None\<close>), entry \<open>i\<close> is
  \<open>close[i] - close[i-1]\<close>.
\<close>

fun diff :: "real list \<Rightarrow> real option list" where
  "diff [] = []"
| "diff (x # xs) = None # map (\<lambda>(a, b). Some (b - a)) (zip (x # xs) xs)"

text \<open>
  \<open>delta.where(delta > 0, 0.0)\<close> keeps an entry where the condition holds and puts
  \<open>0.0\<close> elsewhere; a comparison with NaN is false.
\<close>

definition gain_of :: "real option \<Rightarrow> real" where
  "gain_of d = (case d of None \<Rightarrow> 0 | Some v \<Rightarrow> if v > 0 then v else 0)"

definition loss_of :: "real option \<Rightarrow> real" where
  "loss_of d = - (case d of None \<Rightarrow> 0 | Some v \<Rightarrow> if v < 0 then v else 0)"

definition gain :: "real list \<Rightarrow> real list" where
  "gain closes = map gain_of (diff closes)"

definition loss :: "real list \<Rightarrow> real list" where
  "loss closes = map loss_of (diff closes)"

text \<open>
  \<open>Series.ewm(alpha=a, adjust=False).mean()\<close> on a series without NaN:
  \<open>y[0] = x[0]\<close> and \<open>y[t] = (1 - a) * y[t-1] + a * x[t]\<close>.
\<close>

fun ewm_from :: "real \<Rightarrow> real \<Rightarrow> real list \<Rightarrow> real list" where
  "ewm_from a prev [] = []"
| "ewm_from a prev (x # xs) =
     (let y = (1 - a) * prev + a * x in y # ewm_from a y xs)"

fun ewm_mean :: "real \<Rightarrow> real list \<Rightarrow> real list" where
  "ewm_mean a [] = []"
| "ewm_mean a (x # xs) = x # ewm_from a x xs"

text \<open>
  \<open>alpha = 1 / self.config.ema_window\<close> raises ZeroDivisionError for a zero window;
  \<open>ewm\<close> raises ValueError unless \<open>0 < alpha \<le> 1\<close>.
\<close>

definition ewm_alpha :: "rsi_config \<Rightarrow> error + real" where
  "ewm_alpha cfg =
     (if ema_window cfg = 0 then Inl ZeroDivisionError
      else let a = 1 / real_of_int (ema_window cfg)
           in if a \<le> 0 \<or> a > 1 then Inl ValueError else Inr a)"

definition avg_gain :: "real \<Rightarrow> real list \<Rightarrow> real list" where
  "avg_gain a closes = ewm_mean a (gain closes)"

definition avg_loss :: "real \<Rightarrow> real list \<Rightarrow> real list" where
  "avg_loss a closes = ewm_mean a (loss closes)"

text \<open>
  The last two lines of the method, in exact arithmetic. In binary64 each operation
  rounds: a value that is here just below 100 can there be exactly 100.
\<close>

definition epsilon :: real where
  "epsilon = 1 / 10000000000"

definition rsi_value :: "real \<Rightarrow> real \<Rightarrow> real" where
  "rsi_value g l = 100 - 100 / (1 + g / (l + epsilon))"

definition rsi_series :: "real \<Rightarrow> real list \<Rightarrow> real list" where
  "rsi_series a closes =
     map (\<lambda>(g, l). rsi_value g l) (zip (avg_gain a closes) (avg_loss a closes))"

text \<open>
  The method assigns the new column to the frame it was given and returns that frame.
\<close>

definition calculate_rsi_wilders :: "rsi_config \<Rightarrow> dataframe \<Rightarrow> error + dataframe" where
  "calculate_rsi_wilders cfg df =
     (case ewm_alpha cfg of
        Inl e \<Rightarrow> Inl e
      | Inr a \<Rightarrow> Inr (df\<lparr>rsi := Some (rsi_series a (map bar_close (rows df)))\<rparr>))"

subsection \<open>The signal: \<open>generate_signal\<close>\<close>

text \<open>
  The result is the returned signal (or the exception raised) together with the frame
  as the call leaves it: the frame is the caller's object and is updated in place.
  \<open>iloc[-1]\<close> raises IndexError on an empty column.
\<close>

definition generate_signal ::
  "rsi_config \<Rightarrow> dataframe \<Rightarrow> (error + signal) \<times> dataframe" where
  "generate_signal cfg df =
     (if int (length (rows df)) < rsi_period cfg then (Inr HOLD, df)
      else case calculate_rsi_wilders cfg df of
        Inl e \<Rightarrow> (Inl e, df)
      | Inr df' \<Rightarrow>
          (case rsi df' of
             None \<Rightarrow> (Inl KeyError, df')
           | Some r \<Rightarrow>
               if r = [] then (Inl IndexError, df')
               else let latest_rsi = last r in
                 if latest_rsi < real_of_int (oversold cfg) then (Inr BUY, df')
                 else if latest_rsi > real_of_int (overbought cfg) then (Inr SELL, df')
                 else (Inr HOLD, df')))"

subsection \<open>Positions, the strategy object and its collaborators\<close>

text \<open>
  \<open>self.position\<close> is \<open>None\<close> or a dictionary with the keys \<open>entry_price\<close>,
  \<open>amount\<close> and \<open>timestamp\<close>. Such a dictionary is never empty, so
  \<open>not self.position\<close> holds exactly when the position is \<open>None\<close>.
\<close>

record position =
  entry_price :: real
  amount :: real
  timestamp :: real

text \<open>
  The fields of \<open>RSIStrategy\<close> that the trading methods read or write. The attribute
  \<open>_current_rsi\<close> does not exist until \<open>run\<close> assigns it; reading it before
  raises AttributeError.
\<close>

record strategy =
  config :: rsi_config
  position :: "position option"
  current_rsi :: "real option"

text \<open>
  What the outside world answers during one call: \<open>fetch_ticker(symbol)['last']\<close>,
  \<open>fetch_balance(...)['USDT']['free']\<close>, \<open>market(symbol)['limits']['amount']['min']\<close>,
  the two order calls (\<open>None\<close> when the call returns, \<open>Some e\<close> when it raises
  \<open>e\<close>) and \<open>time.time()\<close>. A value that is read is a number: a ticker
  without a last price, or a market without a minimum, is outside the model.
\<close>

record world =
  fetch_ticker :: "error + real"
  fetch_balance :: "error + real"
  market_min :: "error + real"
  create_market_buy_order :: "real \<Rightarrow> error option"
  create_market_sell_order :: "real \<Rightarrow> error option"
  time_now :: real

text \<open>The texts handed to \<open>send_telegram_message\<close>, by their content.\<close>

datatype message =
    BuyMessage real real real
  | SellMessage real real real
  | InsufficientFundsMessage
  | TimeExitMessage real real
  | StopLossMessage real
  | TakeProfitMessage real

text \<open>
  The calls a method makes to its collaborators, in order: an order call is recorded
  whether it returns or raises. \<open>send_telegram_message\<close> catches its own exceptions,
  and logging does not raise.
\<close>

datatype event =
    MarketBuy real
  | MarketSell real
  | LogError error
  | LogWarning real
  | Telegram message

subsection \<open>Position sizing: \<open>_get_trade_amount\<close>\<close>

text \<open>
  The whole body is inside \<open>try\<close>: a failed balance lookup and the division of a
  float by zero are both logged and give \<open>None\<close>.
\<close>

definition get_trade_amount :: "rsi_config \<Rightarrow> world \<Rightarrow> real \<Rightarrow> real option \<times> event list" where
  "get_trade_amount cfg w price =
     (case fetch_balance w of
        Inl e \<Rightarrow> (None, [LogError e])
      | Inr usdt_balance \<Rightarrow>
          let risk_amount = usdt_balance * risk_percentage cfg in
          if price = 0 then (None, [LogError ZeroDivisionError])
          else (Some (risk_amount / price), []))"

subsection \<open>Order execution: \<open>execute_trade\<close>\<close>

text \<open>
  The \<open>try\<close> block of \<open>execute_trade\<close>: the strategy as the block leaves it, the
  calls made, and the exception that ended the block, if any.
\<close>

definition execute_trade_body ::
  "signal \<Rightarrow> world \<Rightarrow> strategy \<Rightarrow> strategy \<times> event list \<times> error option" where
  "execute_trade_body sig w s =
     (case fetch_ticker w of
        Inl e \<Rightarrow> (s, [], Some e)
      | Inr price \<Rightarrow>
          if sig = BUY \<and> position s = None then
            (case get_trade_amount (config s) w price of
               (None, ev) \<Rightarrow> (s, ev, None)
             | (Some amt, ev) \<Rightarrow>
                 if amt = 0 \<or> amt \<le> 0 then (s, ev, None)
                 else
                   (case market_min w of
                      Inl e \<Rightarrow> (s, ev, Some e)
                    | Inr m \<Rightarrow>
                        if amt < m then (s, ev @ [LogWarning amt], None)
                        else
                          (case create_market_buy_order w amt of
                             Some e \<Rightarrow> (s, ev @ [MarketBuy amt], Some e)
                           | None \<Rightarrow>
                               let s' = s\<lparr>position :=
                                 Some \<lparr>entry_price = price, amount = amt,
                                       timestamp = time_now w\<rparr>\<rparr>
                               in (case current_rsi s of
                                     None \<Rightarrow> (s', ev @ [MarketBuy amt], Some AttributeError)
                                   | Some r \<Rightarrow>
                                       (s', ev @ [MarketBuy amt,
                                          Telegram (BuyMessage price amt r)], None)))))
          else
            (case position s of
               None \<Rightarrow> (s, [], None)
             | Some p \<Rightarrow>
                 if sig = SELL then
                   (case create_market_sell_order w (amount p) of
                      Some e \<Rightarrow> (s, [MarketSell (amount p)], Some e)
                    | None \<Rightarrow>
                        if entry_price p = 0
                        then (s, [MarketSell (amount p)], Some ZeroDivisionError)
                        else
                          let pl = (price / entry_price p - 1) * 100 in
                          (case current_rsi s of
                             None \<Rightarrow> (s, [MarketSell (amount p)], Some AttributeError)
                           | Some r \<Rightarrow>
                               (s\<lparr>position := None\<rparr>,
                                [MarketSell (amount p), Telegram (SellMessage price pl r)],
                                None)))
                 else (s, [], None)))"

text \<open>
  The three \<open>except\<close> clauses: InsufficientFunds is logged and announced, every other
  exception is logged. None of them raises again.
\<close>

definition handle_error :: "error \<Rightarrow> event list" where
  "handle_error e =
     (case e of
        InsufficientFunds \<Rightarrow> [LogError e, Telegram InsufficientFundsMessage]
      | _ \<Rightarrow> [LogError e])"

definition execute_trade :: "signal \<Rightarrow> world \<Rightarrow> strategy \<Rightarrow> strategy \<times> event list" where
  "execute_trade sig w s =
     (case execute_trade_body sig w s of
        (s', ev, None) \<Rightarrow> (s', ev)
      | (s', ev, Some e) \<Rightarrow> (s', ev @ handle_error e))"

subsection \<open>Exit rules: \<open>_check_position_limits\<close>\<close>

text \<open>
  The float expressions that decide the exits. Python evaluates them in binary64, each
  operation giving the rounded exact result. The rounding is the parameter \<open>fl\<close>:
  the identity gives exact arithmetic, and nothing below assumes anything about it.
\<close>

definition elapsed_time :: "(real \<Rightarrow> real) \<Rightarrow> world \<Rightarrow> position \<Rightarrow> real" where
  "elapsed_time fl w p = fl (time_now w - timestamp p)"

definition stop_loss_price :: "(real \<Rightarrow> real) \<Rightarrow> rsi_config \<Rightarrow> real \<Rightarrow> real" where
  "stop_loss_price fl cfg entry = fl (entry * fl (1 - stop_loss cfg))"

definition take_profit_price :: "(real \<Rightarrow> real) \<Rightarrow> rsi_config \<Rightarrow> real \<Rightarrow> real" where
  "take_profit_price fl cfg entry = fl (entry * fl (1 + take_profit cfg))"

text \<open>
  \<open>w\<close> answers the method's own calls (ticker and clock), \<open>w'\<close> those of the
  \<open>execute_trade("SELL")\<close> it makes, which fetches the ticker again.
\<close>

definition check_position_limits ::
  "(real \<Rightarrow> real) \<Rightarrow> world \<Rightarrow> world \<Rightarrow> strategy \<Rightarrow> strategy \<times> event list" where
  "check_position_limits fl w w' s =
     (case position s of
        None \<Rightarrow> (s, [])
      | Some p \<Rightarrow>
          (case fetch_ticker w of
             Inl e \<Rightarrow> (s, [LogError e])
           | Inr price \<Rightarrow>
               let entry = entry_price p;
                   elapsed = elapsed_time fl w p
               in
                 if elapsed > 14400 then
                   (case execute_trade SELL w' s of
                      (s', ev) \<Rightarrow>
                        (s', ev @ [Telegram (TimeExitMessage price (fl (elapsed / 3600)))]))
                 else if price \<le> stop_loss_price fl (config s) entry then
                   (case execute_trade SELL w' s of
                      (s', ev) \<Rightarrow> (s', ev @ [Telegram (StopLossMessage price)]))
                 else if price \<ge> take_profit_price fl (config s) entry then
                   (case execute_trade SELL w' s of
                      (s', ev) \<Rightarrow> (s', ev @ [Telegram (TakeProfitMessage price)]))
                 else (s, [])))"

text \<open>The exit announcements among the calls made, and the order calls.\<close>

fun exit_message :: "event \<Rightarrow> bool" where
  "exit_message (Telegram (TimeExitMessage _ _)) = True"
| "exit_message (Telegram (StopLossMessage _)) = True"
| "exit_message (Telegram (TakeProfitMessage _)) = True"
| "exit_message _ = False"

fun order_call :: "event \<Rightarrow> bool" where
  "order_call (MarketBuy _) = True"
| "order_call (MarketSell _) = True"
| "order_call _ = False"

subsection \<open>Concrete inputs\<close>

text \<open>The defaults of \<open>RSIConfig\<close>, and a variant with a window of two bars.\<close>

definition default_config :: rsi_config where
  "default_config =
     \<lparr>rsi_period = 14, oversold = 30, overbought = 70, stop_loss = 2 / 100,
      take_profit = 5 / 100, risk_percentage = 1 / 10, ema_window = 14\<rparr>"

definition short_config :: rsi_config where
  "short_config = default_config\<lparr>rsi_period := 2, ema_window := 2\<rparr>"

definition bar_at :: "real \<Rightarrow> bar" where
  "bar_at c =
     \<lparr>bar_timestamp = 0, bar_open = c, bar_high = c, bar_low = c, bar_close = c,
      bar_volume = 0\<rparr>"

definition frame_of :: "real list \<Rightarrow> dataframe" where
  "frame_of closes = \<lparr>rows = map bar_at closes, rsi = None\<rparr>"

text \<open>
  A world in which every call succeeds: last price 100, free balance 1000, minimum
  order size 0.001, clock at 1000 seconds. A strategy without a position, and one
  holding a position of size 1 entered at price 100 at time 0.
\<close>

definition calm_world :: world where
  "calm_world =
     \<lparr>fetch_ticker = Inr 100, fetch_balance = Inr 1000, market_min = Inr (1 / 1000),
      create_market_buy_order = (\<lambda>_. None), create_market_sell_order = (\<lambda>_. None),
      time_now = 1000\<rparr>"

definition flat_strategy :: strategy where
  "flat_strategy = \<lparr>config = default_config, position = None, current_rsi = Some 25\<rparr>"

definition open_position :: position where
  "open_position = \<lparr>entry_price = 100, amount = 1, timestamp = 0\<rparr>"

definition open_strategy :: strategy where
  "open_strategy =
     \<lparr>config = default_config, position = Some open_position, current_rsi = Some 50\<rparr>"

section \<open>Properties of the oscillator\<close>

lemma length_diff: "length (diff xs) = length xs"
  by (cases xs) simp_all

lemma length_ewm_from: "length (ewm_from a p xs) = length xs"
  by (induction xs arbitrary: p) (simp_all add: Let_def)

lemma length_ewm_mean: "length (ewm_mean a xs) = length xs"
  by (cases xs) (simp_all add: length_ewm_from)

lemma length_gain: "length (gain xs) = length xs"
  by (simp add: gain_def length_diff)

lemma length_loss: "length (loss xs) = length xs"
  by (simp add: loss_def length_diff)

lemma length_rsi_series: "length (rsi_series a xs) = length xs"
  by (simp add: rsi_series_def avg_gain_def avg_loss_def length_ewm_mean
      length_gain length_loss)

lemma ewm_from_nth_0: "xs \<noteq> [] \<Longrightarrow> ewm_from a p xs ! 0 = a * xs ! 0 + (1 - a) * p"
  by (cases xs) (simp_all add: Let_def)

lemma ewm_from_nth_Suc:
  "Suc i < length xs \<Longrightarrow>
   ewm_from a p xs ! Suc i = a * xs ! Suc i + (1 - a) * ewm_from a p xs ! i"
proof (induction xs arbitrary: p i)
  case Nil
  then show ?case by simp
next
  case (Cons x xs)
  show ?case
  proof (cases i)
    case 0
    with Cons.prems show ?thesis
      by (cases xs) (simp_all add: Let_def)
  next
    case (Suc j)
    with Cons.prems have "Suc j < length xs" by simp
    from Cons.IH [OF this] Suc show ?thesis
      by (simp add: Let_def)
  qed
qed

lemma ewm_mean_nth_0: "xs \<noteq> [] \<Longrightarrow> ewm_mean a xs ! 0 = xs ! 0"
  by (cases xs) simp_all

lemma ewm_mean_nth_Suc:
  assumes "Suc i < length xs"
  shows "ewm_mean a xs ! Suc i = a * xs ! Suc i + (1 - a) * ewm_mean a xs ! i"
proof (cases xs)
  case Nil
  with assms show ?thesis by simp
next
  case (Cons x ys)
  with assms have i: "i < length ys" by simp
  show ?thesis
  proof (cases i)
    case 0
    from i have "ys \<noteq> []" by auto
    from ewm_from_nth_0 [OF this, of a x] show ?thesis
      unfolding Cons 0 by simp
  next
    case (Suc j)
    with i have "Suc j < length ys" by simp
    from ewm_from_nth_Suc [OF this, of a x] show ?thesis
      unfolding Cons Suc by simp
  qed
qed

lemma ewm_from_nonneg:
  "0 \<le> a \<Longrightarrow> a \<le> 1 \<Longrightarrow> 0 \<le> p \<Longrightarrow> \<forall>x\<in>set xs. 0 \<le> x \<Longrightarrow>
   \<forall>y\<in>set (ewm_from a p xs). 0 \<le> y"
proof (induction xs arbitrary: p)
  case Nil
  then show ?case by simp
next
  case (Cons x xs)
  let ?y = "(1 - a) * p + a * x"
  from Cons.prems have y: "0 \<le> ?y" by simp
  from Cons.prems have "\<forall>x\<in>set xs. 0 \<le> x" by simp
  from Cons.IH [OF Cons.prems(1) Cons.prems(2) y this] y show ?case
    by (simp add: Let_def)
qed

lemma ewm_mean_nonneg:
  assumes "0 \<le> a" "a \<le> 1" "\<forall>x\<in>set xs. 0 \<le> x"
  shows "\<forall>y\<in>set (ewm_mean a xs). 0 \<le> y"
proof (cases xs)
  case Nil
  then show ?thesis by simp
next
  case (Cons x ys)
  with assms have x: "0 \<le> x" and ys: "\<forall>z\<in>set ys. 0 \<le> z" by simp_all
  from ewm_from_nonneg [OF assms(1) assms(2) x ys] x show ?thesis
    unfolding Cons by simp
qed

lemma gain_nonneg: "\<forall>x\<in>set (gain xs). 0 \<le> x"
  by (auto simp: gain_def gain_of_def split: option.splits)

lemma loss_nonneg: "\<forall>x\<in>set (loss xs). 0 \<le> x"
  by (auto simp: loss_def loss_of_def split: option.splits)

lemma ewm_alpha_ok:
  "1 \<le> ema_window cfg \<Longrightarrow> ewm_alpha cfg = Inr (1 / real_of_int (ema_window cfg))"
  by (simp add: ewm_alpha_def Let_def)

lemma ewm_alpha_range: "ewm_alpha cfg = Inr a \<Longrightarrow> 0 < a \<and> a \<le> 1"
  by (auto simp: ewm_alpha_def Let_def split: if_splits)

lemma rsi_value_range:
  assumes g: "0 \<le> g" and l: "0 \<le> l"
  shows "0 \<le> rsi_value g l \<and> rsi_value g l < 100"
proof -
  define q where "q = g / (l + epsilon)"
  have e: "0 < l + epsilon" using l by (simp add: epsilon_def add_nonneg_pos)
  have q: "0 \<le> q" unfolding q_def using g e by simp
  then have d: "1 \<le> 1 + q" by simp
  then have "100 / (1 + q) \<le> 100 / 1"
    by (intro divide_left_mono) simp_all
  then have u: "100 / (1 + q) \<le> 100" by simp
  have p: "0 < 100 / (1 + q)" using d by simp
  have "rsi_value g l = 100 - 100 / (1 + q)"
    unfolding rsi_value_def q_def ..
  with u p show ?thesis by linarith
qed

lemma closes_frame_of: "map bar_close (rows (frame_of cs)) = cs"
  by (simp add: frame_of_def bar_at_def comp_def)

lemma rsi_series_falling: "rsi_series a [2, 1] = [0, 0]"
  by (simp add: rsi_series_def avg_gain_def avg_loss_def gain_def loss_def
      gain_of_def loss_of_def rsi_value_def Let_def)

lemma rsi_series_range:
  assumes "0 < a" "a \<le> 1"
  shows "\<forall>v\<in>set (rsi_series a cs). 0 \<le> v \<and> v \<le> 100"
proof
  fix v assume "v \<in> set (rsi_series a cs)"
  then obtain g l where gl: "(g, l) \<in> set (zip (avg_gain a cs) (avg_loss a cs))"
    and v: "v = rsi_value g l"
    by (auto simp: rsi_series_def)
  from gl have "g \<in> set (avg_gain a cs)" "l \<in> set (avg_loss a cs)"
    by (auto dest: set_zip_leftD set_zip_rightD)
  moreover have "\<forall>y\<in>set (avg_gain a cs). 0 \<le> y"
    unfolding avg_gain_def using assms gain_nonneg by (intro ewm_mean_nonneg) simp_all
  moreover have "\<forall>y\<in>set (avg_loss a cs). 0 \<le> y"
    unfolding avg_loss_def using assms loss_nonneg by (intro ewm_mean_nonneg) simp_all
  ultimately have "0 \<le> g" "0 \<le> l" by blast+
  then have "0 \<le> rsi_value g l \<and> rsi_value g l < 100" by (rule rsi_value_range)
  with v show "0 \<le> v \<and> v \<le> 100" by simp
qed

lemma rsi_series_first: "cs \<noteq> [] \<Longrightarrow> rsi_series a cs ! 0 = 0"
  by (cases cs)
    (simp_all add: rsi_series_def avg_gain_def avg_loss_def gain_def loss_def
      gain_of_def loss_of_def rsi_value_def)

lemma calculate_rsi_wilders_Inr:
  assumes "calculate_rsi_wilders cfg df = Inr df'"
  shows "\<exists>a. ewm_alpha cfg = Inr a \<and>
    df' = df\<lparr>rsi := Some (rsi_series a (map bar_close (rows df)))\<rparr>"
  using assms by (auto simp: calculate_rsi_wilders_def split: sum.splits)

section \<open>The claims about the oscillator\<close>

text \<open>
  C8. For a smoothing window of at least one bar, \<open>_calculate_rsi_wilders\<close> returns,
  and the column it writes has one value per bar. The smoothed gains and losses have
  that length too, start at the first gain and loss sample, and follow the recurrence
  \<open>avg[i+1] = alpha * value[i+1] + (1 - alpha) * avg[i]\<close> with
  \<open>alpha = 1 / ema_window\<close>; every oscillator value is computed from the two
  averages at its index.
\<close>

theorem C8_wilder_recurrence:
  assumes "1 \<le> ema_window cfg"
  shows "\<exists>a r. ewm_alpha cfg = Inr a \<and> a = 1 / real_of_int (ema_window cfg) \<and>
     calculate_rsi_wilders cfg df = Inr (df\<lparr>rsi := Some r\<rparr>) \<and>
     length r = length (rows df) \<and>
     (let closes = map bar_close (rows df);
          ag = avg_gain a closes; al = avg_loss a closes
      in length ag = length (rows df) \<and> length al = length (rows df) \<and>
         (rows df \<noteq> [] \<longrightarrow> ag ! 0 = gain closes ! 0 \<and> al ! 0 = loss closes ! 0) \<and>
         (\<forall>i. Suc i < length (rows df) \<longrightarrow>
            ag ! Suc i = a * gain closes ! Suc i + (1 - a) * ag ! i \<and>
            al ! Suc i = a * loss closes ! Suc i + (1 - a) * al ! i) \<and>
         (\<forall>i < length (rows df). r ! i = rsi_value (ag ! i) (al ! i)))"
proof -
  let ?a = "1 / real_of_int (ema_window cfg)"
  let ?closes = "map bar_close (rows df)"
  let ?r = "rsi_series ?a ?closes"
  have al: "ewm_alpha cfg = Inr ?a" using assms by (rule ewm_alpha_ok)
  have c: "calculate_rsi_wilders cfg df = Inr (df\<lparr>rsi := Some ?r\<rparr>)"
    by (simp add: calculate_rsi_wilders_def al)
  have lr: "length ?r = length (rows df)" by (simp add: length_rsi_series)
  have lg: "length (avg_gain ?a ?closes) = length (rows df)"
    by (simp add: avg_gain_def length_ewm_mean length_gain)
  have ll: "length (avg_loss ?a ?closes) = length (rows df)"
    by (simp add: avg_loss_def length_ewm_mean length_loss)
  have seed: "rows df \<noteq> [] \<longrightarrow>
      avg_gain ?a ?closes ! 0 = gain ?closes ! 0 \<and> avg_loss ?a ?closes ! 0 = loss ?closes ! 0"
  proof
    assume "rows df \<noteq> []"
    then have "gain ?closes \<noteq> []" "loss ?closes \<noteq> []"
      using length_gain [of ?closes] length_loss [of ?closes] by auto
    then show "avg_gain ?a ?closes ! 0 = gain ?closes ! 0 \<and>
        avg_loss ?a ?closes ! 0 = loss ?closes ! 0"
      by (simp add: avg_gain_def avg_loss_def ewm_mean_nth_0)
  qed
  have step: "\<forall>i. Suc i < length (rows df) \<longrightarrow>
      avg_gain ?a ?closes ! Suc i = ?a * gain ?closes ! Suc i + (1 - ?a) * avg_gain ?a ?closes ! i \<and>
      avg_loss ?a ?closes ! Suc i = ?a * loss ?closes ! Suc i + (1 - ?a) * avg_loss ?a ?closes ! i"
  proof (intro allI impI)
    fix i assume "Suc i < length (rows df)"
    then have g: "Suc i < length (gain ?closes)" and l: "Suc i < length (loss ?closes)"
      by (simp_all add: length_gain length_loss)
    show "avg_gain ?a ?closes ! Suc i = ?a * gain ?closes ! Suc i + (1 - ?a) * avg_gain ?a ?closes ! i \<and>
      avg_loss ?a ?closes ! Suc i = ?a * loss ?closes ! Suc i + (1 - ?a) * avg_loss ?a ?closes ! i"
      unfolding avg_gain_def avg_loss_def
      using ewm_mean_nth_Suc [OF g, of ?a] ewm_mean_nth_Suc [OF l, of ?a] by simp
  qed
  have val: "\<forall>i < length (rows df). ?r ! i =
      rsi_value (avg_gain ?a ?closes ! i) (avg_loss ?a ?closes ! i)"
    using lg ll by (simp add: rsi_series_def)
  show ?thesis
    apply (rule exI [of _ ?a])
    apply (rule exI [of _ ?r])
    unfolding Let_def
    using al c lr lg ll seed step val by blast
qed

text \<open>
  At the closes 10, 12, 11 with the default window of 14 bars: the gains are 0, 2, 0,
  the smoothed gains 0, 1/7, 13/98.
\<close>

theorem C8_wilder_recurrence_witness:
  "1 \<le> ema_window default_config \<and>
   ewm_alpha default_config = Inr (1 / 14) \<and>
   gain [10, 12, 11] = [0, 2, 0] \<and>
   avg_gain (1 / 14) [10, 12, 11] ! 0 = 0 \<and>
   avg_gain (1 / 14) [10, 12, 11] ! 1 = 1 / 14 * 2 + (1 - 1 / 14) * 0 \<and>
   avg_gain (1 / 14) [10, 12, 11] ! 2 = 1 / 14 * 0 + (1 - 1 / 14) * (1 / 7) \<and>
   length (avg_loss (1 / 14) [10, 12, 11]) = 3"
proof -
  have h: "1 \<le> ema_window default_config" by (simp add: default_config_def)
  have g: "gain [10, 12, 11] = [0, 2, 0]"
    by (simp add: gain_def gain_of_def)
  have w: "real_of_int (ema_window default_config) = 14"
    by (simp add: default_config_def)
  from C8_wilder_recurrence [OF h, of "frame_of [10, 12, 11]"]
  obtain a r where a: "ewm_alpha default_config = Inr a" "a = 1 / 14"
    and l: "length (avg_loss a [10, 12, 11]) = 3"
    and s0: "avg_gain a [10, 12, 11] ! 0 = gain [10, 12, 11] ! 0"
    and st: "\<forall>i. Suc i < 3 \<longrightarrow> avg_gain a [10, 12, 11] ! Suc i =
        a * gain [10, 12, 11] ! Suc i + (1 - a) * avg_gain a [10, 12, 11] ! i"
    unfolding Let_def closes_frame_of w
    by (auto simp: frame_of_def)
  note s0 = s0 [unfolded a(2)] and st = st [unfolded a(2)] and l = l [unfolded a(2)]
    and al = a(1) [unfolded a(2)]
  from st have s1: "avg_gain (1 / 14) [10, 12, 11] ! Suc 0 =
        1 / 14 * gain [10, 12, 11] ! Suc 0 + (1 - 1 / 14) * avg_gain (1 / 14) [10, 12, 11] ! 0"
    by simp
  from st have s2: "avg_gain (1 / 14) [10, 12, 11] ! Suc (Suc 0) =
        1 / 14 * gain [10, 12, 11] ! Suc (Suc 0) +
        (1 - 1 / 14) * avg_gain (1 / 14) [10, 12, 11] ! Suc 0"
    by simp
  have v0: "avg_gain (1 / 14) [10, 12, 11] ! 0 = 0" using s0 g by simp
  have v1: "avg_gain (1 / 14) [10, 12, 11] ! 1 = 1 / 7" using s1 v0 g by simp
  have v2: "avg_gain (1 / 14) [10, 12, 11] ! 2 = 13 / 98"
    using s2 v1 g by (simp add: numeral_2_eq_2)
  from h al g v0 v1 v2 l show ?thesis by simp
qed

text \<open>
  C2, as stated, fails: for the closes 2, 1 (one delta, \<open>-1\<close>, so not all deltas are
  zero) both oscillator values are exactly 0.
\<close>

theorem C2_counterexample:
  "diff (map bar_close (rows (frame_of [2, 1]))) = [None, Some (- 1)] \<and>
   calculate_rsi_wilders default_config (frame_of [2, 1]) =
     Inr ((frame_of [2, 1])\<lparr>rsi := Some [0, 0]\<rparr>)"
  by (simp add: closes_frame_of calculate_rsi_wilders_def ewm_alpha_def
      default_config_def rsi_series_falling Let_def)

text \<open>
  C2, amended. Whenever \<open>_calculate_rsi_wilders\<close> returns, every value of the column
  it writes lies in the closed interval from 0 to 100, and the value at index 0 is 0.
\<close>

theorem C2_oscillator_range:
  assumes "calculate_rsi_wilders cfg df = Inr df'"
  shows "\<exists>r. rsi df' = Some r \<and> (\<forall>v\<in>set r. 0 \<le> v \<and> v \<le> 100) \<and>
     (r \<noteq> [] \<longrightarrow> r ! 0 = 0)"
proof -
  from calculate_rsi_wilders_Inr [OF assms] obtain a where a: "ewm_alpha cfg = Inr a"
    and df': "df' = df\<lparr>rsi := Some (rsi_series a (map bar_close (rows df)))\<rparr>"
    by blast
  let ?r = "rsi_series a (map bar_close (rows df))"
  from a have r: "0 < a" "a \<le> 1" using ewm_alpha_range by blast+
  have "\<forall>v\<in>set ?r. 0 \<le> v \<and> v \<le> 100" using r by (rule rsi_series_range)
  moreover have "?r \<noteq> [] \<longrightarrow> ?r ! 0 = 0"
    using length_rsi_series [of a "map bar_close (rows df)"]
    by (auto intro: rsi_series_first)
  ultimately show ?thesis using df' by simp
qed

text \<open>
  At the closes 1, 2 with a window of two bars the column is 0 and
  \<open>100 - 100 / (1 + (1/2) / 1e-10)\<close>, that is 500000000000 / 5000000001.
\<close>

theorem C2_oscillator_range_witness:
  "calculate_rsi_wilders short_config (frame_of [1, 2]) =
     Inr ((frame_of [1, 2])\<lparr>rsi := Some [0, 500000000000 / 5000000001]\<rparr>) \<and>
   (0::real) \<le> 500000000000 / 5000000001 \<and>
   (500000000000::real) / 5000000001 \<le> 100"
proof -
  have s: "rsi_series (1 / 2) [1, 2] = [0, 500000000000 / 5000000001]"
    by (simp add: rsi_series_def avg_gain_def avg_loss_def gain_def loss_def
        gain_of_def loss_of_def rsi_value_def epsilon_def Let_def)
  have c: "calculate_rsi_wilders short_config (frame_of [1, 2]) =
     Inr ((frame_of [1, 2])\<lparr>rsi := Some [0, 500000000000 / 5000000001]\<rparr>)"
    by (simp add: closes_frame_of calculate_rsi_wilders_def ewm_alpha_def
        short_config_def default_config_def s Let_def)
  from C2_oscillator_range [OF c] c show ?thesis by simp
qed

section \<open>The claims about the signal\<close>

lemma calculate_falling:
  "calculate_rsi_wilders short_config (frame_of [2, 1]) =
     Inr ((frame_of [2, 1])\<lparr>rsi := Some [0, 0]\<rparr>)"
  by (simp add: closes_frame_of calculate_rsi_wilders_def ewm_alpha_def
      short_config_def default_config_def rsi_series_falling Let_def)

lemma calculate_rising:
  "calculate_rsi_wilders short_config (frame_of [1, 2]) =
     Inr ((frame_of [1, 2])\<lparr>rsi := Some [0, 500000000000 / 5000000001]\<rparr>)"
proof -
  have s: "rsi_series (1 / 2) [1, 2] = [0, 500000000000 / 5000000001]"
    by (simp add: rsi_series_def avg_gain_def avg_loss_def gain_def loss_def
        gain_of_def loss_of_def rsi_value_def epsilon_def Let_def)
  show ?thesis
    by (simp add: closes_frame_of calculate_rsi_wilders_def ewm_alpha_def
        short_config_def default_config_def s Let_def)
qed

lemma generate_signal_short:
  "int (length (rows df)) < rsi_period cfg \<Longrightarrow> generate_signal cfg df = (Inr HOLD, df)"
  by (simp add: generate_signal_def)

lemma generate_signal_long:
  assumes "\<not> int (length (rows df)) < rsi_period cfg"
    and "ewm_alpha cfg = Inr a"
    and "rows df \<noteq> []"
  shows "generate_signal cfg df =
    (let r = rsi_series a (map bar_close (rows df)) in
     (if last r < real_of_int (oversold cfg) then Inr BUY
      else if last r > real_of_int (overbought cfg) then Inr SELL
      else Inr HOLD,
      df\<lparr>rsi := Some r\<rparr>))"
proof -
  have "rsi_series a (map bar_close (rows df)) \<noteq> []"
    using assms(3) length_rsi_series [of a "map bar_close (rows df)"] by auto
  with assms(1,2) show ?thesis
    by (simp add: generate_signal_def calculate_rsi_wilders_def Let_def)
qed

text \<open>
  C1. A window shorter than \<open>rsi_period\<close> gives HOLD. Otherwise, for a non-empty
  window, a smoothing window of at least one bar and \<open>oversold \<le> overbought\<close>, the
  oscillator is computed, and with \<open>latest\<close> its last value the signal is BUY exactly
  when \<open>latest < oversold\<close>, SELL exactly when \<open>latest > overbought\<close>, and HOLD exactly
  when \<open>oversold \<le> latest \<le> overbought\<close>: a value equal to a threshold gives HOLD.
\<close>

theorem C1_generate_signal_thresholds:
  "(int (length (rows df)) < rsi_period cfg \<longrightarrow> fst (generate_signal cfg df) = Inr HOLD) \<and>
   (\<not> int (length (rows df)) < rsi_period cfg \<and> rows df \<noteq> [] \<and> 1 \<le> ema_window cfg \<and>
      oversold cfg \<le> overbought cfg \<longrightarrow>
     (\<exists>df' r. calculate_rsi_wilders cfg df = Inr df' \<and> rsi df' = Some r \<and> r \<noteq> [] \<and>
        (fst (generate_signal cfg df) = Inr BUY \<longleftrightarrow> last r < real_of_int (oversold cfg)) \<and>
        (fst (generate_signal cfg df) = Inr SELL \<longleftrightarrow> last r > real_of_int (overbought cfg)) \<and>
        (fst (generate_signal cfg df) = Inr HOLD \<longleftrightarrow>
           real_of_int (oversold cfg) \<le> last r \<and> last r \<le> real_of_int (overbought cfg))))"
proof (intro conjI impI)
  assume "int (length (rows df)) < rsi_period cfg"
  then show "fst (generate_signal cfg df) = Inr HOLD"
    by (simp add: generate_signal_short)
next
  assume h: "\<not> int (length (rows df)) < rsi_period cfg \<and> rows df \<noteq> [] \<and>
    1 \<le> ema_window cfg \<and> oversold cfg \<le> overbought cfg"
  let ?a = "1 / real_of_int (ema_window cfg)"
  let ?r = "rsi_series ?a (map bar_close (rows df))"
  from h have a: "ewm_alpha cfg = Inr ?a" by (simp add: ewm_alpha_ok)
  have r: "?r \<noteq> []"
    using h length_rsi_series [of ?a "map bar_close (rows df)"] by auto
  have c: "calculate_rsi_wilders cfg df = Inr (df\<lparr>rsi := Some ?r\<rparr>)"
    by (simp add: calculate_rsi_wilders_def a)
  from h have t: "real_of_int (oversold cfg) \<le> real_of_int (overbought cfg)" by simp
  from h a have g: "fst (generate_signal cfg df) =
      (if last ?r < real_of_int (oversold cfg) then Inr BUY
       else if last ?r > real_of_int (overbought cfg) then Inr SELL
       else Inr HOLD)"
    by (simp add: generate_signal_long Let_def)
  have b1: "fst (generate_signal cfg df) = Inr BUY \<longleftrightarrow> last ?r < real_of_int (oversold cfg)"
    unfolding g by simp
  have b2: "fst (generate_signal cfg df) = Inr SELL \<longleftrightarrow> last ?r > real_of_int (overbought cfg)"
    unfolding g using t by auto
  have b3: "fst (generate_signal cfg df) = Inr HOLD \<longleftrightarrow>
      real_of_int (oversold cfg) \<le> last ?r \<and> last ?r \<le> real_of_int (overbought cfg)"
    unfolding g by auto
  show "\<exists>df' r. calculate_rsi_wilders cfg df = Inr df' \<and> rsi df' = Some r \<and> r \<noteq> [] \<and>
        (fst (generate_signal cfg df) = Inr BUY \<longleftrightarrow> last r < real_of_int (oversold cfg)) \<and>
        (fst (generate_signal cfg df) = Inr SELL \<longleftrightarrow> last r > real_of_int (overbought cfg)) \<and>
        (fst (generate_signal cfg df) = Inr HOLD \<longleftrightarrow>
           real_of_int (oversold cfg) \<le> last r \<and> last r \<le> real_of_int (overbought cfg))"
    apply (rule exI [of _ "df\<lparr>rsi := Some ?r\<rparr>"])
    apply (rule exI [of _ ?r])
    using c r b1 b2 b3 by simp
qed

text \<open>
  With the default period of 14 a window of two bars gives HOLD; with a period of two
  the falling window 2, 1 (last value 0) gives BUY and the rising window 1, 2 (last
  value above 99) gives SELL.
\<close>

theorem C1_generate_signal_thresholds_witness:
  "fst (generate_signal default_config (frame_of [2, 1])) = Inr HOLD \<and>
   fst (generate_signal short_config (frame_of [2, 1])) = Inr BUY \<and>
   fst (generate_signal short_config (frame_of [1, 2])) = Inr SELL"
proof -
  have l: "length (rows (frame_of [2, 1])) = 2" "length (rows (frame_of [1, 2])) = 2"
    "rows (frame_of [2, 1]) \<noteq> []" "rows (frame_of [1, 2]) \<noteq> []"
    by (simp_all add: frame_of_def)
  have d: "rsi_period default_config = 14" "rsi_period short_config = 2"
    "ema_window short_config = 2" "oversold short_config = 30"
    "overbought short_config = 70"
    by (simp_all add: default_config_def short_config_def)
  have "fst (generate_signal default_config (frame_of [2, 1])) = Inr HOLD"
    using C1_generate_signal_thresholds [of "frame_of [2, 1]" default_config] l d by simp
  moreover have "fst (generate_signal short_config (frame_of [2, 1])) = Inr BUY"
    using C1_generate_signal_thresholds [of "frame_of [2, 1]" short_config] l d
      calculate_falling by auto
  moreover have "fst (generate_signal short_config (frame_of [1, 2])) = Inr SELL"
    using C1_generate_signal_thresholds [of "frame_of [1, 2]" short_config] l d
      calculate_rising by auto
  ultimately show ?thesis by simp
qed

text \<open>
  C9, as stated, fails: the call changes the window it is given. The frame of the
  closes 2, 1 has no \<open>rsi\<close> column before the call and the column 0, 0 after it.
\<close>

theorem C9_counterexample:
  "rsi (frame_of [2, 1]) = None \<and>
   rsi (snd (generate_signal short_config (frame_of [2, 1]))) = Some [0, 0] \<and>
   snd (generate_signal short_config (frame_of [2, 1])) \<noteq> frame_of [2, 1]"
proof -
  have n: "rsi (frame_of [2, 1]) = None" by (simp add: frame_of_def)
  have a: "ewm_alpha short_config = Inr (1 / 2)"
    by (simp add: ewm_alpha_def short_config_def default_config_def Let_def)
  have "\<not> int (length (rows (frame_of [2, 1]))) < rsi_period short_config"
    "rows (frame_of [2, 1]) \<noteq> []"
    by (simp_all add: frame_of_def short_config_def default_config_def)
  from generate_signal_long [OF this(1) a this(2)]
  have s: "rsi (snd (generate_signal short_config (frame_of [2, 1]))) = Some [0, 0]"
    by (simp add: Let_def closes_frame_of rsi_series_falling)
  from n s show ?thesis by auto
qed

text \<open>
  C9, amended. \<open>generate_signal\<close> reads only the configuration and the window, and
  never changes the bars of the window. A window shorter than \<open>rsi_period\<close> is left
  as it is; so is the window when the smoothing factor is rejected. Otherwise the call
  writes the oscillator into the \<open>rsi\<close> column of the caller's window. A second call
  on the window the first call left behind returns the same signal.
\<close>

theorem C9_generate_signal_frame:
  "rows (snd (generate_signal cfg df)) = rows df \<and>
   (int (length (rows df)) < rsi_period cfg \<longrightarrow> snd (generate_signal cfg df) = df) \<and>
   (\<forall>e. ewm_alpha cfg = Inl e \<longrightarrow> snd (generate_signal cfg df) = df) \<and>
   (\<forall>a. \<not> int (length (rows df)) < rsi_period cfg \<and> ewm_alpha cfg = Inr a \<longrightarrow>
      snd (generate_signal cfg df) = df\<lparr>rsi := Some (rsi_series a (map bar_close (rows df)))\<rparr>) \<and>
   fst (generate_signal cfg (snd (generate_signal cfg df))) = fst (generate_signal cfg df)"
proof -
  have p1: "int (length (rows df)) < rsi_period cfg \<longrightarrow> snd (generate_signal cfg df) = df"
    by (simp add: generate_signal_short)
  have p2: "\<forall>e. ewm_alpha cfg = Inl e \<longrightarrow> snd (generate_signal cfg df) = df"
    by (simp add: generate_signal_def calculate_rsi_wilders_def)
  have p3: "\<forall>a. \<not> int (length (rows df)) < rsi_period cfg \<and> ewm_alpha cfg = Inr a \<longrightarrow>
      snd (generate_signal cfg df) = df\<lparr>rsi := Some (rsi_series a (map bar_close (rows df)))\<rparr>"
    by (simp add: generate_signal_def calculate_rsi_wilders_def Let_def)
  have p0: "rows (snd (generate_signal cfg df)) = rows df"
  proof (cases "int (length (rows df)) < rsi_period cfg")
    case True
    with p1 show ?thesis by simp
  next
    case False
    show ?thesis
    proof (cases "ewm_alpha cfg")
      case (Inl e)
      with p2 show ?thesis by simp
    next
      case (Inr a)
      with False p3 show ?thesis by simp
    qed
  qed
  have p4: "fst (generate_signal cfg (snd (generate_signal cfg df))) =
      fst (generate_signal cfg df)"
  proof (cases "int (length (rows df)) < rsi_period cfg")
    case True
    with p1 show ?thesis by simp
  next
    case False
    show ?thesis
    proof (cases "ewm_alpha cfg")
      case (Inl e)
      with p2 show ?thesis by simp
    next
      case (Inr a)
      with False p3 have s: "snd (generate_signal cfg df) =
          df\<lparr>rsi := Some (rsi_series a (map bar_close (rows df)))\<rparr>" by simp
      show ?thesis unfolding s
        using False Inr
        by (simp add: generate_signal_def calculate_rsi_wilders_def Let_def)
    qed
  qed
  from p0 p1 p2 p3 p4 show ?thesis by blast
qed

text \<open>
  The window 2, 1 keeps its bars and gains the column 0, 0 under a period of two; under
  the default period of 14 it is returned unchanged; a second call repeats BUY.
\<close>

theorem C9_generate_signal_frame_witness:
  "rows (snd (generate_signal short_config (frame_of [2, 1]))) = rows (frame_of [2, 1]) \<and>
   snd (generate_signal default_config (frame_of [2, 1])) = frame_of [2, 1] \<and>
   snd (generate_signal short_config (frame_of [2, 1])) =
     (frame_of [2, 1])\<lparr>rsi := Some [0, 0]\<rparr> \<and>
   fst (generate_signal short_config (snd (generate_signal short_config (frame_of [2, 1])))) =
     fst (generate_signal short_config (frame_of [2, 1]))"
proof -
  have a: "ewm_alpha short_config = Inr (1 / 2)"
    by (simp add: ewm_alpha_def short_config_def default_config_def Let_def)
  have l: "int (length (rows (frame_of [2, 1]))) < rsi_period default_config"
    "\<not> int (length (rows (frame_of [2, 1]))) < rsi_period short_config"
    by (simp_all add: frame_of_def short_config_def default_config_def)
  note t1 = C9_generate_signal_frame [of short_config "frame_of [2, 1]"]
  note t2 = C9_generate_signal_frame [of default_config "frame_of [2, 1]"]
  from t1 have "rows (snd (generate_signal short_config (frame_of [2, 1]))) =
      rows (frame_of [2, 1])" by blast
  moreover from t2 l(1) have "snd (generate_signal default_config (frame_of [2, 1])) =
      frame_of [2, 1]" by blast
  moreover have "snd (generate_signal short_config (frame_of [2, 1])) =
     (frame_of [2, 1])\<lparr>rsi := Some [0, 0]\<rparr>"
  proof -
    from t1 l(2) a have "snd (generate_signal short_config (frame_of [2, 1])) =
        (frame_of [2, 1])\<lparr>rsi :=
          Some (rsi_series (1 / 2) (map bar_close (rows (frame_of [2, 1]))))\<rparr>"
      by blast
    then show ?thesis
      unfolding closes_frame_of rsi_series_falling .
  qed
  moreover from t1 have
    "fst (generate_signal short_config (snd (generate_signal short_config (frame_of [2, 1])))) =
     fst (generate_signal short_config (frame_of [2, 1]))" by blast
  ultimately show ?thesis by blast
qed

section \<open>Properties of the trading methods\<close>

lemma get_trade_amount_cases:
  "get_trade_amount cfg w price =
     (case fetch_balance w of
        Inl e \<Rightarrow> (None, [LogError e])
      | Inr b \<Rightarrow> if price = 0 then (None, [LogError ZeroDivisionError])
                 else (Some (b * risk_percentage cfg / price), []))"
  by (simp add: get_trade_amount_def Let_def split: sum.splits)

lemma get_trade_amount_events:
  "filter order_call (snd (get_trade_amount cfg w price)) = [] \<and>
   filter exit_message (snd (get_trade_amount cfg w price)) = []"
  by (simp add: get_trade_amount_cases split: sum.splits)

lemma handle_error_events:
  "filter order_call (handle_error e) = [] \<and> filter exit_message (handle_error e) = [] \<and>
   LogError e \<in> set (handle_error e)"
  by (cases e) (simp_all add: handle_error_def)

lemma body_ticker_fails:
  "fetch_ticker w = Inl e \<Longrightarrow> execute_trade_body sig w s = (s, [], Some e)"
  by (simp add: execute_trade_body_def)

lemma body_buy_while_open:
  "position s = Some p \<Longrightarrow> fetch_ticker w = Inr price \<Longrightarrow>
   execute_trade_body BUY w s = (s, [], None)"
  by (simp add: execute_trade_body_def)

lemma body_hold:
  "fetch_ticker w = Inr price \<Longrightarrow> execute_trade_body HOLD w s = (s, [], None)"
  by (simp add: execute_trade_body_def split: option.splits)

lemma body_sell_while_flat:
  "position s = None \<Longrightarrow> fetch_ticker w = Inr price \<Longrightarrow>
   execute_trade_body SELL w s = (s, [], None)"
  by (simp add: execute_trade_body_def)

lemma body_buy_flat:
  assumes "position s = None" and "fetch_ticker w = Inr price"
  shows "execute_trade_body BUY w s =
    (case get_trade_amount (config s) w price of
       (None, ev) \<Rightarrow> (s, ev, None)
     | (Some amt, ev) \<Rightarrow>
         if amt \<le> 0 then (s, ev, None)
         else
           (case market_min w of
              Inl e \<Rightarrow> (s, ev, Some e)
            | Inr m \<Rightarrow>
                if amt < m then (s, ev @ [LogWarning amt], None)
                else
                  (case create_market_buy_order w amt of
                     Some e \<Rightarrow> (s, ev @ [MarketBuy amt], Some e)
                   | None \<Rightarrow>
                       (case current_rsi s of
                          None \<Rightarrow>
                            (s\<lparr>position := Some \<lparr>entry_price = price, amount = amt,
                                timestamp = time_now w\<rparr>\<rparr>,
                             ev @ [MarketBuy amt], Some AttributeError)
                        | Some r \<Rightarrow>
                            (s\<lparr>position := Some \<lparr>entry_price = price, amount = amt,
                                timestamp = time_now w\<rparr>\<rparr>,
                             ev @ [MarketBuy amt, Telegram (BuyMessage price amt r)],
                             None)))))"
  using assms
  by (simp add: execute_trade_body_def Let_def
      split: prod.splits option.splits sum.splits)

lemma body_sell_open:
  assumes "position s = Some p" and "fetch_ticker w = Inr price"
  shows "execute_trade_body SELL w s =
    (case create_market_sell_order w (amount p) of
       Some e \<Rightarrow> (s, [MarketSell (amount p)], Some e)
     | None \<Rightarrow>
         if entry_price p = 0 then (s, [MarketSell (amount p)], Some ZeroDivisionError)
         else
           (case current_rsi s of
              None \<Rightarrow> (s, [MarketSell (amount p)], Some AttributeError)
            | Some r \<Rightarrow>
                (s\<lparr>position := None\<rparr>,
                 [MarketSell (amount p),
                  Telegram (SellMessage price ((price / entry_price p - 1) * 100) r)],
                 None)))"
  using assms
  by (simp add: execute_trade_body_def Let_def split: option.splits)

lemma execute_trade_of_body:
  "execute_trade_body sig w s = (s', ev, err) \<Longrightarrow>
   execute_trade sig w s = (s', ev @ (case err of None \<Rightarrow> [] | Some e \<Rightarrow> handle_error e))"
  by (simp add: execute_trade_def split: option.splits)

lemma execute_trade_state:
  "fst (execute_trade sig w s) = fst (execute_trade_body sig w s)"
  by (simp add: execute_trade_def split: prod.splits option.splits)

lemma body_cases:
  obtains (ticker) e where "fetch_ticker w = Inl e"
  | (buy) price where "fetch_ticker w = Inr price" "sig = BUY" "position s = None"
  | (sell) price p where "fetch_ticker w = Inr price" "sig = SELL" "position s = Some p"
  | (idle) price where "fetch_ticker w = Inr price"
      "execute_trade_body sig w s = (s, [], None)"
proof (cases "fetch_ticker w")
  case (Inl e)
  then show ?thesis by (rule ticker)
next
  case (Inr price)
  show ?thesis
  proof (cases "position s")
    case None
    show ?thesis
    proof (cases sig)
      case BUY
      with Inr None show ?thesis by (intro buy)
    next
      case SELL
      with Inr None show ?thesis by (intro idle) (simp_all add: body_sell_while_flat)
    next
      case HOLD
      with Inr show ?thesis by (intro idle) (simp_all add: body_hold)
    qed
  next
    case (Some p)
    show ?thesis
    proof (cases sig)
      case BUY
      with Inr Some show ?thesis by (intro idle) (simp_all add: body_buy_while_open)
    next
      case SELL
      with Inr Some show ?thesis by (intro sell)
    next
      case HOLD
      with Inr show ?thesis by (intro idle) (simp_all add: body_hold)
    qed
  qed
qed

lemma body_no_exit_message:
  "filter exit_message (fst (snd (execute_trade_body sig w s))) = []"
proof (cases rule: body_cases [where w = w and sig = sig and s = s])
  case (ticker e)
  then show ?thesis by (simp add: body_ticker_fails)
next
  case (buy price)
  obtain amt ev where g: "get_trade_amount (config s) w price = (amt, ev)"
    by (cases "get_trade_amount (config s) w price") auto
  with get_trade_amount_events [of "config s" w price]
  have "filter order_call ev = []" "filter exit_message ev = []" by simp_all
  with buy g show ?thesis
    by (simp add: body_buy_flat split: option.splits sum.splits)
next
  case (sell price p)
  then show ?thesis
    by (simp add: body_sell_open split: option.splits)
next
  case (idle price)
  then show ?thesis by simp
qed

lemma execute_trade_no_exit_message:
  "filter exit_message (snd (execute_trade sig w s)) = []"
proof -
  obtain s' ev err where b: "execute_trade_body sig w s = (s', ev, err)"
    by (cases "execute_trade_body sig w s") auto
  with body_no_exit_message [of sig w s] have "filter exit_message ev = []" by simp
  with execute_trade_of_body [OF b] handle_error_events show ?thesis
    by (cases err) simp_all
qed

lemma body_market_buy:
  assumes "MarketBuy a \<in> set (fst (snd (execute_trade_body sig w s)))"
  shows "sig = BUY \<and> position s = None \<and> 0 < a \<and>
    (\<exists>price. fetch_ticker w = Inr price \<and>
       fst (get_trade_amount (config s) w price) = Some a) \<and>
    (\<exists>m. market_min w = Inr m \<and> m \<le> a)"
proof (cases rule: body_cases [where w = w and sig = sig and s = s])
  case (ticker e)
  with assms show ?thesis by (simp add: body_ticker_fails)
next
  case (buy price)
  have "MarketBuy a \<notin> set (snd (get_trade_amount (config s) w price))"
    by (simp add: get_trade_amount_cases split: sum.splits)
  with assms buy show ?thesis
    by (auto simp: body_buy_flat split: prod.splits option.splits sum.splits if_splits)
next
  case (sell price p)
  with assms show ?thesis
    by (auto simp: body_sell_open split: option.splits if_splits)
next
  case (idle price)
  with assms show ?thesis by simp
qed

lemma execute_trade_market_buy:
  assumes "MarketBuy a \<in> set (snd (execute_trade sig w s))"
  shows "MarketBuy a \<in> set (fst (snd (execute_trade_body sig w s)))"
proof -
  obtain s' ev err where b: "execute_trade_body sig w s = (s', ev, err)"
    by (cases "execute_trade_body sig w s") auto
  have "MarketBuy a \<notin> set (case err of None \<Rightarrow> [] | Some e \<Rightarrow> handle_error e)"
    by (cases err) (auto simp: handle_error_def split: error.splits)
  with assms execute_trade_of_body [OF b] b show ?thesis by auto
qed

lemma body_buy_calls:
  "length (filter order_call (fst (snd (execute_trade_body sig w s)))) \<le> 1"
proof (cases rule: body_cases [where w = w and sig = sig and s = s])
  case (ticker e)
  then show ?thesis by (simp add: body_ticker_fails)
next
  case (buy price)
  obtain amt ev where g: "get_trade_amount (config s) w price = (amt, ev)"
    by (cases "get_trade_amount (config s) w price") auto
  with get_trade_amount_events [of "config s" w price]
  have "filter order_call ev = []" "filter exit_message ev = []" by simp_all
  with buy g show ?thesis
    by (simp add: body_buy_flat split: option.splits sum.splits)
next
  case (sell price p)
  then show ?thesis
    by (simp add: body_sell_open split: option.splits)
next
  case (idle price)
  then show ?thesis by simp
qed

lemma execute_trade_order_calls:
  "filter order_call (snd (execute_trade sig w s)) =
   filter order_call (fst (snd (execute_trade_body sig w s)))"
proof -
  obtain s' ev err where b: "execute_trade_body sig w s = (s', ev, err)"
    by (cases "execute_trade_body sig w s") auto
  with execute_trade_of_body [OF b] handle_error_events show ?thesis
    by (cases err) simp_all
qed

lemma check_position_limits_events:
  "\<exists>ev. snd (check_position_limits fl w w' s) = ev \<and>
     (ev = [] \<or> (\<exists>e. ev = [LogError e]) \<or>
      (\<exists>m. ev = snd (execute_trade SELL w' s) @ [Telegram m]))"
  by (auto simp: check_position_limits_def Let_def
      split: option.splits sum.splits prod.splits)

section \<open>The claims about sizing and order execution\<close>

text \<open>
  C3, as stated, fails: for a negative price the division goes through, so with a free
  balance of 1000, a risk fraction of 0.1 and the price \<open>-1\<close> the result is the
  amount \<open>-100\<close>, not none.
\<close>

theorem C3_counterexample:
  "fetch_balance calm_world = Inr 1000 \<and>
   get_trade_amount default_config calm_world (- 1) = (Some (- 100), [])"
  by (simp add: get_trade_amount_def calm_world_def default_config_def)

text \<open>
  C3, amended. When the balance lookup succeeds and the price is not 0, the result is
  \<open>freeBalance * risk_percentage / price\<close>, and that amount times the price is
  \<open>freeBalance * risk_percentage\<close>. The result is none when the price is 0 and when
  the lookup fails. For a negative price the result is a number, at most 0 when
  \<open>freeBalance * risk_percentage\<close> is at least 0.
\<close>

theorem C3_get_trade_amount:
  "(\<forall>b. fetch_balance w = Inr b \<and> price \<noteq> 0 \<longrightarrow>
      fst (get_trade_amount cfg w price) = Some (b * risk_percentage cfg / price) \<and>
      b * risk_percentage cfg / price * price = b * risk_percentage cfg) \<and>
   (price = 0 \<longrightarrow> fst (get_trade_amount cfg w price) = None) \<and>
   (\<forall>e. fetch_balance w = Inl e \<longrightarrow> fst (get_trade_amount cfg w price) = None) \<and>
   (\<forall>b. fetch_balance w = Inr b \<and> price < 0 \<and> 0 \<le> b * risk_percentage cfg \<longrightarrow>
      (\<exists>a. fst (get_trade_amount cfg w price) = Some a \<and> a \<le> 0))"
proof (intro conjI allI impI)
  fix b assume "fetch_balance w = Inr b \<and> price \<noteq> 0"
  then show "fst (get_trade_amount cfg w price) = Some (b * risk_percentage cfg / price)"
    and "b * risk_percentage cfg / price * price = b * risk_percentage cfg"
    by (simp_all add: get_trade_amount_cases)
next
  assume "price = 0"
  then show "fst (get_trade_amount cfg w price) = None"
    by (simp add: get_trade_amount_cases split: sum.splits)
next
  fix e assume "fetch_balance w = Inl e"
  then show "fst (get_trade_amount cfg w price) = None"
    by (simp add: get_trade_amount_cases)
next
  fix b assume h: "fetch_balance w = Inr b \<and> price < 0 \<and> 0 \<le> b * risk_percentage cfg"
  then have "b * risk_percentage cfg / price \<le> 0"
    by (simp add: divide_nonneg_neg)
  with h show "\<exists>a. fst (get_trade_amount cfg w price) = Some a \<and> a \<le> 0"
    by (simp add: get_trade_amount_cases)
qed

text \<open>
  With a free balance of 1000 and a risk fraction of 0.1: at price 100 the amount is 1
  and \<open>1 * 100 = 1000 * 0.1\<close>; at price 0 and after a failed lookup the result is
  none; at price \<open>-1\<close> it is \<open>-100\<close>.
\<close>

theorem C3_get_trade_amount_witness:
  "fst (get_trade_amount default_config calm_world 100) = Some 1 \<and>
   (1::real) * 100 = 1000 * (1 / 10) \<and>
   fst (get_trade_amount default_config calm_world 0) = None \<and>
   fst (get_trade_amount default_config
          (calm_world\<lparr>fetch_balance := Inl NetworkError\<rparr>) 100) = None \<and>
   fst (get_trade_amount default_config calm_world (- 1)) = Some (- 100)"
proof -
  have b: "fetch_balance calm_world = Inr 1000"
    "fetch_balance (calm_world\<lparr>fetch_balance := Inl NetworkError\<rparr>) = Inl NetworkError"
    "risk_percentage default_config = 1 / 10"
    by (simp_all add: calm_world_def default_config_def)
  note t = C3_get_trade_amount [of calm_world _ default_config]
  from t [of 100] b have "fst (get_trade_amount default_config calm_world 100) = Some 1"
    by simp
  moreover from t [of 0] have "fst (get_trade_amount default_config calm_world 0) = None"
    by simp
  moreover from C3_get_trade_amount
      [of "calm_world\<lparr>fetch_balance := Inl NetworkError\<rparr>" 100 default_config] b
  have "fst (get_trade_amount default_config
          (calm_world\<lparr>fetch_balance := Inl NetworkError\<rparr>) 100) = None"
    by blast
  moreover from t [of "- 1"] b
  have "fst (get_trade_amount default_config calm_world (- 1)) = Some (- 100)"
    by simp
  ultimately show ?thesis by simp
qed

text \<open>
  C4. The strategy holds at most one position record (\<open>position\<close> is an optional
  record). A BUY signal with a position open leaves the strategy unchanged and calls
  no order operation; when the ticker is fetched it makes no call at all. In general a
  market-buy call is made only from a strategy without a position, one call of
  \<open>execute_trade\<close> makes at most one order call, and the exit check never buys.
\<close>

theorem C4_at_most_one_position:
  "(position s \<noteq> None \<longrightarrow>
      fst (execute_trade BUY w s) = s \<and>
      filter order_call (snd (execute_trade BUY w s)) = [] \<and>
      (\<forall>price. fetch_ticker w = Inr price \<longrightarrow> snd (execute_trade BUY w s) = [])) \<and>
   (\<forall>a. MarketBuy a \<in> set (snd (execute_trade sig w s)) \<longrightarrow> position s = None) \<and>
   length (filter order_call (snd (execute_trade sig w s))) \<le> 1 \<and>
   (\<forall>a. MarketBuy a \<notin> set (snd (check_position_limits fl w w' s)))"
proof (intro conjI impI allI)
  assume o: "position s \<noteq> None"
  then obtain p where p: "position s = Some p" by auto
  show "fst (execute_trade BUY w s) = s"
  proof (cases "fetch_ticker w")
    case (Inl e)
    then show ?thesis by (simp add: execute_trade_state body_ticker_fails)
  next
    case (Inr price)
    with p show ?thesis by (simp add: execute_trade_state body_buy_while_open)
  qed
  show "filter order_call (snd (execute_trade BUY w s)) = []"
  proof (cases "fetch_ticker w")
    case (Inl e)
    then show ?thesis by (simp add: execute_trade_order_calls body_ticker_fails)
  next
    case (Inr price)
    with p show ?thesis by (simp add: execute_trade_order_calls body_buy_while_open)
  qed
  fix price assume "fetch_ticker w = Inr price"
  from execute_trade_of_body [OF body_buy_while_open [OF p this]]
  show "snd (execute_trade BUY w s) = []" by simp
next
  fix a assume "MarketBuy a \<in> set (snd (execute_trade sig w s))"
  then show "position s = None"
    using body_market_buy execute_trade_market_buy by blast
next
  show "length (filter order_call (snd (execute_trade sig w s))) \<le> 1"
    unfolding execute_trade_order_calls by (rule body_buy_calls)
next
  fix a
  have n: "MarketBuy a \<notin> set (snd (execute_trade SELL w' s))"
    using body_market_buy [of a SELL w' s] execute_trade_market_buy [of a SELL w' s]
    by auto
  from check_position_limits_events [of fl w w' s] n
  show "MarketBuy a \<notin> set (snd (check_position_limits fl w w' s))"
    by auto
qed

text \<open>
  A BUY on the open strategy changes nothing and makes no call; a BUY on the flat
  strategy opens a position of size 1 at price 100 with one market-buy call.
\<close>

theorem C4_at_most_one_position_witness:
  "position open_strategy = Some open_position \<and>
   execute_trade BUY calm_world open_strategy = (open_strategy, []) \<and>
   execute_trade BUY calm_world flat_strategy =
     (flat_strategy\<lparr>position := Some \<lparr>entry_price = 100, amount = 1, timestamp = 1000\<rparr>\<rparr>,
      [MarketBuy 1, Telegram (BuyMessage 100 1 25)])"
proof -
  have p: "position open_strategy = Some open_position"
    "position open_strategy \<noteq> None" "fetch_ticker calm_world = Inr 100"
    by (simp_all add: open_strategy_def calm_world_def)
  from C4_at_most_one_position [where s = open_strategy and w = calm_world] p
  have "fst (execute_trade BUY calm_world open_strategy) = open_strategy"
    "snd (execute_trade BUY calm_world open_strategy) = []"
    by blast+
  then have "execute_trade BUY calm_world open_strategy = (open_strategy, [])"
    by (simp add: prod_eq_iff)
  moreover have "execute_trade BUY calm_world flat_strategy =
     (flat_strategy\<lparr>position := Some \<lparr>entry_price = 100, amount = 1, timestamp = 1000\<rparr>\<rparr>,
      [MarketBuy 1, Telegram (BuyMessage 100 1 25)])"
    by (simp add: execute_trade_def execute_trade_body_def get_trade_amount_def
        flat_strategy_def calm_world_def default_config_def Let_def)
  ultimately show ?thesis using p by simp
qed

lemma body_buy_order_fails:
  assumes "\<forall>a. create_market_buy_order w a \<noteq> None"
  shows "fst (execute_trade_body BUY w s) = s"
proof (cases rule: body_cases [where w = w and sig = BUY and s = s])
  case (ticker e)
  then show ?thesis by (simp add: body_ticker_fails)
next
  case (buy price)
  obtain amt ev where g: "get_trade_amount (config s) w price = (amt, ev)"
    by (cases "get_trade_amount (config s) w price") auto
  from assms have "\<And>a. \<exists>e. create_market_buy_order w a = Some e" by auto
  with buy g show ?thesis
    by (auto simp: body_buy_flat split: option.splits sum.splits)
next
  case (sell price p)
  then show ?thesis by simp
next
  case (idle price)
  then show ?thesis by simp
qed

lemma body_sell_order_fails:
  assumes "\<forall>a. create_market_sell_order w a \<noteq> None"
  shows "fst (execute_trade_body SELL w s) = s"
proof (cases rule: body_cases [where w = w and sig = SELL and s = s])
  case (ticker e)
  then show ?thesis by (simp add: body_ticker_fails)
next
  case (buy price)
  then show ?thesis by simp
next
  case (sell price p)
  from assms have "\<exists>e. create_market_sell_order w (amount p) = Some e" by auto
  with sell show ?thesis
    by (auto simp: body_sell_open)
next
  case (idle price)
  then show ?thesis by simp
qed

text \<open>
  C7. If the market-buy call raises, \<open>execute_trade("BUY")\<close> leaves the strategy as
  it was; if the market-sell call raises, \<open>execute_trade("SELL")\<close> leaves it as it
  was, the position record included. Whatever exception ends the \<open>try\<close> block,
  \<open>execute_trade\<close> returns normally, with the exception logged.
\<close>

theorem C7_order_rejection_atomic:
  "((\<forall>a. create_market_buy_order w a \<noteq> None) \<longrightarrow> fst (execute_trade BUY w s) = s) \<and>
   ((\<forall>a. create_market_sell_order w a \<noteq> None) \<longrightarrow> fst (execute_trade SELL w s) = s) \<and>
   (\<forall>s' ev e. execute_trade_body sig w s = (s', ev, Some e) \<longrightarrow>
      execute_trade sig w s = (s', ev @ handle_error e) \<and>
      LogError e \<in> set (snd (execute_trade sig w s)))"
proof (intro conjI impI allI)
  assume "\<forall>a. create_market_buy_order w a \<noteq> None"
  then show "fst (execute_trade BUY w s) = s"
    by (simp add: execute_trade_state body_buy_order_fails)
next
  assume "\<forall>a. create_market_sell_order w a \<noteq> None"
  then show "fst (execute_trade SELL w s) = s"
    by (simp add: execute_trade_state body_sell_order_fails)
next
  fix s' ev e assume b: "execute_trade_body sig w s = (s', ev, Some e)"
  from execute_trade_of_body [OF b]
  show "execute_trade sig w s = (s', ev @ handle_error e)" by simp
  then show "LogError e \<in> set (snd (execute_trade sig w s))"
    using handle_error_events by simp
qed

text \<open>
  A market-buy call rejected for insufficient funds leaves the flat strategy flat; a
  market-sell call failing on the network leaves the open strategy with its position.
  In both cases the call is made, the exception is logged and \<open>execute_trade\<close>
  returns.
\<close>

theorem C7_order_rejection_atomic_witness:
  "execute_trade BUY
     (calm_world\<lparr>create_market_buy_order := (\<lambda>_. Some InsufficientFunds)\<rparr>) flat_strategy =
     (flat_strategy,
      [MarketBuy 1, LogError InsufficientFunds, Telegram InsufficientFundsMessage]) \<and>
   execute_trade SELL
     (calm_world\<lparr>create_market_sell_order := (\<lambda>_. Some NetworkError)\<rparr>) open_strategy =
     (open_strategy, [MarketSell 1, LogError NetworkError]) \<and>
   position open_strategy = Some open_position"
proof -
  let ?wb = "calm_world\<lparr>create_market_buy_order := (\<lambda>_. Some InsufficientFunds)\<rparr>"
  let ?ws = "calm_world\<lparr>create_market_sell_order := (\<lambda>_. Some NetworkError)\<rparr>"
  have fb: "\<forall>a. create_market_buy_order ?wb a \<noteq> None" by simp
  have fs: "\<forall>a. create_market_sell_order ?ws a \<noteq> None" by simp
  have bb: "execute_trade_body BUY ?wb flat_strategy =
      (flat_strategy, [MarketBuy 1], Some InsufficientFunds)"
    by (simp add: execute_trade_body_def get_trade_amount_def
        flat_strategy_def calm_world_def default_config_def Let_def)
  have bs: "execute_trade_body SELL ?ws open_strategy =
      (open_strategy, [MarketSell 1], Some NetworkError)"
    by (simp add: execute_trade_body_def open_strategy_def open_position_def
        calm_world_def Let_def)
  note tb = C7_order_rejection_atomic [where w = ?wb and s = flat_strategy and sig = BUY]
  note ts = C7_order_rejection_atomic [where w = ?ws and s = open_strategy and sig = SELL]
  from tb fb have "fst (execute_trade BUY ?wb flat_strategy) = flat_strategy" by blast
  moreover from tb bb have "execute_trade BUY ?wb flat_strategy =
      (flat_strategy, [MarketBuy 1] @ handle_error InsufficientFunds)" by blast
  moreover from ts fs have "fst (execute_trade SELL ?ws open_strategy) = open_strategy"
    by blast
  moreover from ts bs have "execute_trade SELL ?ws open_strategy =
      (open_strategy, [MarketSell 1] @ handle_error NetworkError)" by blast
  moreover have "position open_strategy = Some open_position"
    by (simp add: open_strategy_def)
  ultimately show ?thesis by (simp add: handle_error_def)
qed

text \<open>
  C10. A market-buy call is made only on a BUY signal without a position, with the
  amount that sizing returned, which is then strictly positive and at least the
  venue's minimum. When the ticker is fetched, there is no position, and sizing
  returns none, or an amount that is zero, negative or below the minimum, no order call
  is made and the strategy is left as it was.
\<close>

theorem C10_market_buy_guard:
  "(\<forall>a. MarketBuy a \<in> set (snd (execute_trade sig w s)) \<longrightarrow>
      sig = BUY \<and> position s = None \<and> 0 < a \<and>
      (\<exists>price. fetch_ticker w = Inr price \<and>
         fst (get_trade_amount (config s) w price) = Some a) \<and>
      (\<exists>m. market_min w = Inr m \<and> m \<le> a)) \<and>
   (\<forall>price. fetch_ticker w = Inr price \<and> position s = None \<and>
      (fst (get_trade_amount (config s) w price) = None \<or>
       (\<exists>a. fst (get_trade_amount (config s) w price) = Some a \<and>
          (a \<le> 0 \<or> (\<exists>m. market_min w = Inr m \<and> a < m)))) \<longrightarrow>
      fst (execute_trade BUY w s) = s \<and>
      filter order_call (snd (execute_trade BUY w s)) = [])"
proof (rule conjI)
  show "\<forall>a. MarketBuy a \<in> set (snd (execute_trade sig w s)) \<longrightarrow>
      sig = BUY \<and> position s = None \<and> 0 < a \<and>
      (\<exists>price. fetch_ticker w = Inr price \<and>
         fst (get_trade_amount (config s) w price) = Some a) \<and>
      (\<exists>m. market_min w = Inr m \<and> m \<le> a)"
  proof (intro allI impI)
    fix a assume "MarketBuy a \<in> set (snd (execute_trade sig w s))"
    then have "MarketBuy a \<in> set (fst (snd (execute_trade_body sig w s)))"
      by (rule execute_trade_market_buy)
    then show "sig = BUY \<and> position s = None \<and> 0 < a \<and>
        (\<exists>price. fetch_ticker w = Inr price \<and>
           fst (get_trade_amount (config s) w price) = Some a) \<and>
        (\<exists>m. market_min w = Inr m \<and> m \<le> a)"
      by (rule body_market_buy)
  qed
next
  show "\<forall>price. fetch_ticker w = Inr price \<and> position s = None \<and>
      (fst (get_trade_amount (config s) w price) = None \<or>
       (\<exists>a. fst (get_trade_amount (config s) w price) = Some a \<and>
          (a \<le> 0 \<or> (\<exists>m. market_min w = Inr m \<and> a < m)))) \<longrightarrow>
      fst (execute_trade BUY w s) = s \<and>
      filter order_call (snd (execute_trade BUY w s)) = []"
  proof (intro allI impI)
    fix price
    assume h: "fetch_ticker w = Inr price \<and> position s = None \<and>
        (fst (get_trade_amount (config s) w price) = None \<or>
         (\<exists>a. fst (get_trade_amount (config s) w price) = Some a \<and>
            (a \<le> 0 \<or> (\<exists>m. market_min w = Inr m \<and> a < m))))"
    obtain amt ev where g: "get_trade_amount (config s) w price = (amt, ev)"
      by (cases "get_trade_amount (config s) w price") auto
    with get_trade_amount_events [of "config s" w price]
    have e: "filter order_call ev = []" by simp
    from h g have b: "fst (execute_trade_body BUY w s) = s \<and>
        filter order_call (fst (snd (execute_trade_body BUY w s))) = []"
      using e by (auto simp: body_buy_flat split: option.splits sum.splits)
    then show "fst (execute_trade BUY w s) = s \<and>
        filter order_call (snd (execute_trade BUY w s)) = []"
      by (simp add: execute_trade_state execute_trade_order_calls)
  qed
qed

text \<open>
  With a free balance of 0 the amount is 0 and nothing is bought; with a minimum order
  size of 5 the amount 1 is below it and nothing is bought; the one market-buy call of
  the calm world has the amount 1, above its minimum of 0.001.
\<close>

theorem C10_market_buy_guard_witness:
  "execute_trade BUY (calm_world\<lparr>fetch_balance := Inr 0\<rparr>) flat_strategy =
     (flat_strategy, []) \<and>
   execute_trade BUY (calm_world\<lparr>market_min := Inr 5\<rparr>) flat_strategy =
     (flat_strategy, [LogWarning 1]) \<and>
   MarketBuy 1 \<in> set (snd (execute_trade BUY calm_world flat_strategy)) \<and>
   fst (get_trade_amount (config flat_strategy) calm_world 100) = Some 1 \<and>
   market_min calm_world = Inr (1 / 1000)"
proof -
  let ?w0 = "calm_world\<lparr>fetch_balance := Inr 0\<rparr>"
  let ?w5 = "calm_world\<lparr>market_min := Inr 5\<rparr>"
  have e0: "snd (execute_trade BUY ?w0 flat_strategy) = []"
    by (simp add: execute_trade_def execute_trade_body_def get_trade_amount_def
        flat_strategy_def calm_world_def default_config_def Let_def)
  have e5: "snd (execute_trade BUY ?w5 flat_strategy) = [LogWarning 1]"
    by (simp add: execute_trade_def execute_trade_body_def get_trade_amount_def
        flat_strategy_def calm_world_def default_config_def Let_def)
  have m: "MarketBuy 1 \<in> set (snd (execute_trade BUY calm_world flat_strategy))"
    by (simp add: execute_trade_def execute_trade_body_def get_trade_amount_def
        flat_strategy_def calm_world_def default_config_def Let_def)
  have t: "fetch_ticker ?w0 = Inr 100" "fetch_ticker ?w5 = Inr 100"
    "fetch_ticker calm_world = Inr 100"
    "position flat_strategy = None" "market_min ?w5 = Inr 5"
    "market_min calm_world = Inr (1 / 1000)"
    by (simp_all add: calm_world_def flat_strategy_def)
  have g: "fst (get_trade_amount (config flat_strategy) ?w0 100) = Some 0"
    "fst (get_trade_amount (config flat_strategy) ?w5 100) = Some 1"
    by (simp_all add: get_trade_amount_def flat_strategy_def calm_world_def
        default_config_def)
  from C10_market_buy_guard [of BUY ?w0 flat_strategy] t g
  have "fst (execute_trade BUY ?w0 flat_strategy) = flat_strategy" by simp
  with e0 have r0: "execute_trade BUY ?w0 flat_strategy = (flat_strategy, [])"
    by (simp add: prod_eq_iff)
  from C10_market_buy_guard [of BUY ?w5 flat_strategy] t g
  have "fst (execute_trade BUY ?w5 flat_strategy) = flat_strategy" by simp
  with e5 have r5: "execute_trade BUY ?w5 flat_strategy = (flat_strategy, [LogWarning 1])"
    by (simp add: prod_eq_iff)
  from C10_market_buy_guard [of BUY calm_world flat_strategy] m t
  have "fst (get_trade_amount (config flat_strategy) calm_world 100) = Some 1"
    by auto
  with r0 r5 m t show ?thesis by simp
qed

section \<open>The claims about the exit rules\<close>

lemma check_position_limits_open:
  assumes "position s = Some p" and "fetch_ticker w = Inr price"
  shows "check_position_limits fl w w' s =
    (if elapsed_time fl w p > 14400
     then (fst (execute_trade SELL w' s),
           snd (execute_trade SELL w' s) @
             [Telegram (TimeExitMessage price (fl (elapsed_time fl w p / 3600)))])
     else if price \<le> stop_loss_price fl (config s) (entry_price p)
     then (fst (execute_trade SELL w' s),
           snd (execute_trade SELL w' s) @ [Telegram (StopLossMessage price)])
     else if price \<ge> take_profit_price fl (config s) (entry_price p)
     then (fst (execute_trade SELL w' s),
           snd (execute_trade SELL w' s) @ [Telegram (TakeProfitMessage price)])
     else (s, []))"
  using assms
  by (simp add: check_position_limits_def Let_def split: prod.splits)

lemma execute_trade_not_exit:
  "e \<in> set (snd (execute_trade sig w s)) \<Longrightarrow> \<not> exit_message e"
proof
  assume "e \<in> set (snd (execute_trade sig w s))" and "exit_message e"
  then have "e \<in> set (filter exit_message (snd (execute_trade sig w s)))" by simp
  then show False by (simp add: execute_trade_no_exit_message)
qed

lemma execute_trade_sell_done:
  assumes "position s = Some p" and "fetch_ticker w' = Inr price'"
    and "create_market_sell_order w' (amount p) = None"
    and "entry_price p \<noteq> 0" and "current_rsi s = Some r"
  shows "execute_trade SELL w' s =
    (s\<lparr>position := None\<rparr>,
     [MarketSell (amount p),
      Telegram (SellMessage price' ((price' / entry_price p - 1) * 100) r)])"
proof -
  from assms have "execute_trade_body SELL w' s =
    (s\<lparr>position := None\<rparr>,
     [MarketSell (amount p),
      Telegram (SellMessage price' ((price' / entry_price p - 1) * 100) r)], None)"
    by (simp add: body_sell_open)
  from execute_trade_of_body [OF this] show ?thesis by simp
qed

text \<open>
  C5. With a position open and the ticker fetched, one check tests time expiry first,
  then the stop-loss, then the take-profit. The first test that holds decides the
  outcome alone: the check runs \<open>execute_trade("SELL")\<close> once, its result being the
  strategy and the calls of that sale followed by the announcement of that exit. When
  all three tests hold this is the time-based exit. When none holds the check does
  nothing. At most one order call is made and at most one exit announced. When the
  sale goes through, it leaves the strategy without a position.
\<close>

theorem C5_exit_priority:
  "position s = Some p \<and> fetch_ticker w = Inr price \<longrightarrow>
     check_position_limits fl w w' s =
       (if elapsed_time fl w p > 14400
        then (fst (execute_trade SELL w' s),
              snd (execute_trade SELL w' s) @
                [Telegram (TimeExitMessage price (fl (elapsed_time fl w p / 3600)))])
        else if price \<le> stop_loss_price fl (config s) (entry_price p)
        then (fst (execute_trade SELL w' s),
              snd (execute_trade SELL w' s) @ [Telegram (StopLossMessage price)])
        else if price \<ge> take_profit_price fl (config s) (entry_price p)
        then (fst (execute_trade SELL w' s),
              snd (execute_trade SELL w' s) @ [Telegram (TakeProfitMessage price)])
        else (s, [])) \<and>
     (elapsed_time fl w p > 14400 \<and>
      price \<le> stop_loss_price fl (config s) (entry_price p) \<and>
      price \<ge> take_profit_price fl (config s) (entry_price p) \<longrightarrow>
        check_position_limits fl w w' s =
          (fst (execute_trade SELL w' s),
           snd (execute_trade SELL w' s) @
             [Telegram (TimeExitMessage price (fl (elapsed_time fl w p / 3600)))]) \<and>
        filter exit_message (snd (check_position_limits fl w w' s)) =
          [Telegram (TimeExitMessage price (fl (elapsed_time fl w p / 3600)))]) \<and>
     filter exit_message (snd (check_position_limits fl w w' s)) =
       (if elapsed_time fl w p > 14400
        then [Telegram (TimeExitMessage price (fl (elapsed_time fl w p / 3600)))]
        else if price \<le> stop_loss_price fl (config s) (entry_price p)
        then [Telegram (StopLossMessage price)]
        else if price \<ge> take_profit_price fl (config s) (entry_price p)
        then [Telegram (TakeProfitMessage price)]
        else []) \<and>
     length (filter order_call (snd (check_position_limits fl w w' s))) \<le> 1 \<and>
     (\<forall>price' r. fetch_ticker w' = Inr price' \<and>
        create_market_sell_order w' (amount p) = None \<and>
        entry_price p \<noteq> 0 \<and> current_rsi s = Some r \<longrightarrow>
        execute_trade SELL w' s =
          (s\<lparr>position := None\<rparr>,
           [MarketSell (amount p),
            Telegram (SellMessage price' ((price' / entry_price p - 1) * 100) r)]))"
proof
  assume h: "position s = Some p \<and> fetch_ticker w = Inr price"
  let ?t = "elapsed_time fl w p > 14400"
  let ?sl = "price \<le> stop_loss_price fl (config s) (entry_price p)"
  let ?tp = "price \<ge> take_profit_price fl (config s) (entry_price p)"
  let ?E = "execute_trade SELL w' s"
  let ?mt = "Telegram (TimeExitMessage price (fl (elapsed_time fl w p / 3600)))"
  let ?c = "check_position_limits fl w w' s"
  from h have c: "?c =
    (if ?t then (fst ?E, snd ?E @ [?mt])
     else if ?sl then (fst ?E, snd ?E @ [Telegram (StopLossMessage price)])
     else if ?tp then (fst ?E, snd ?E @ [Telegram (TakeProfitMessage price)])
     else (s, []))"
    by (simp add: check_position_limits_open)
  have n: "filter exit_message (snd ?E) = []"
    by (rule execute_trade_no_exit_message)
  have o: "length (filter order_call (snd ?E)) \<le> 1"
    unfolding execute_trade_order_calls by (rule body_buy_calls)
  have f: "filter exit_message (snd ?c) =
       (if ?t then [?mt]
        else if ?sl then [Telegram (StopLossMessage price)]
        else if ?tp then [Telegram (TakeProfitMessage price)]
        else [])"
    unfolding c using n by simp
  have l: "length (filter order_call (snd ?c)) \<le> 1"
    unfolding c using o by simp
  have a: "?t \<and> ?sl \<and> ?tp \<longrightarrow> ?c = (fst ?E, snd ?E @ [?mt]) \<and>
      filter exit_message (snd ?c) = [?mt]"
  proof
    assume q: "?t \<and> ?sl \<and> ?tp"
    with c have "?c = (fst ?E, snd ?E @ [?mt])" by simp
    moreover from q f have "filter exit_message (snd ?c) = [?mt]" by simp
    ultimately show "?c = (fst ?E, snd ?E @ [?mt]) \<and>
      filter exit_message (snd ?c) = [?mt]" by (rule conjI)
  qed
  have d: "\<forall>price' r. fetch_ticker w' = Inr price' \<and>
        create_market_sell_order w' (amount p) = None \<and>
        entry_price p \<noteq> 0 \<and> current_rsi s = Some r \<longrightarrow>
        ?E = (s\<lparr>position := None\<rparr>,
           [MarketSell (amount p),
            Telegram (SellMessage price' ((price' / entry_price p - 1) * 100) r)])"
    using h by (blast intro: execute_trade_sell_done)
  from c a f l d show "?c =
    (if ?t then (fst ?E, snd ?E @ [?mt])
     else if ?sl then (fst ?E, snd ?E @ [Telegram (StopLossMessage price)])
     else if ?tp then (fst ?E, snd ?E @ [Telegram (TakeProfitMessage price)])
     else (s, [])) \<and>
    (?t \<and> ?sl \<and> ?tp \<longrightarrow> ?c = (fst ?E, snd ?E @ [?mt]) \<and>
      filter exit_message (snd ?c) = [?mt]) \<and>
    filter exit_message (snd ?c) =
       (if ?t then [?mt]
        else if ?sl then [Telegram (StopLossMessage price)]
        else if ?tp then [Telegram (TakeProfitMessage price)]
        else []) \<and>
    length (filter order_call (snd ?c)) \<le> 1 \<and>
    (\<forall>price' r. fetch_ticker w' = Inr price' \<and>
        create_market_sell_order w' (amount p) = None \<and>
        entry_price p \<noteq> 0 \<and> current_rsi s = Some r \<longrightarrow>
        ?E = (s\<lparr>position := None\<rparr>,
           [MarketSell (amount p),
            Telegram (SellMessage price' ((price' / entry_price p - 1) * 100) r)]))"
    by blast
qed

lemma exit_inputs:
  "position open_strategy = Some open_position"
  "current_rsi open_strategy = Some 50"
  "config open_strategy = default_config"
  "entry_price open_position = 100" "amount open_position = 1"
  "timestamp open_position = 0"
  "stop_loss default_config = 2 / 100" "take_profit default_config = 5 / 100"
  "fetch_ticker calm_world = Inr 100" "time_now calm_world = 1000"
  "create_market_sell_order calm_world = (\<lambda>_. None)"
  by (simp_all add: open_strategy_def open_position_def default_config_def calm_world_def)

lemma exit_thresholds_exact:
  "elapsed_time id w p = time_now w - timestamp p"
  "stop_loss_price id cfg entry = entry * (1 - stop_loss cfg)"
  "take_profit_price id cfg entry = entry * (1 + take_profit cfg)"
  by (simp_all add: elapsed_time_def stop_loss_price_def take_profit_price_def)

text \<open>
  In exact arithmetic (\<open>fl\<close> the identity), with every call of the sale succeeding
  at price 100. A position entered at price 100 with both margins 0, checked at price
  100 after 14401 seconds, meets all three tests: the position is sold and only the
  time-based exit is announced. With the default margins and a position 1000 seconds
  old, price 97 sells with the stop-loss announcement, price 106 sells with the
  take-profit announcement, and price 100 does nothing.
\<close>

theorem C5_exit_priority_witness:
  "(14401::real) - 0 > 14400 \<and> (100::real) \<le> 100 * (1 - 0) \<and> (100::real) \<ge> 100 * (1 + 0) \<and>
   check_position_limits id (calm_world\<lparr>time_now := 14401\<rparr>) calm_world
     (open_strategy\<lparr>config := default_config\<lparr>stop_loss := 0, take_profit := 0\<rparr>\<rparr>) =
     (open_strategy\<lparr>config := default_config\<lparr>stop_loss := 0, take_profit := 0\<rparr>,
        position := None\<rparr>,
      [MarketSell 1, Telegram (SellMessage 100 0 50),
       Telegram (TimeExitMessage 100 (14401 / 3600))]) \<and>
   check_position_limits id (calm_world\<lparr>fetch_ticker := Inr 97\<rparr>) calm_world open_strategy =
     (open_strategy\<lparr>position := None\<rparr>,
      [MarketSell 1, Telegram (SellMessage 100 0 50), Telegram (StopLossMessage 97)]) \<and>
   check_position_limits id (calm_world\<lparr>fetch_ticker := Inr 106\<rparr>) calm_world open_strategy =
     (open_strategy\<lparr>position := None\<rparr>,
      [MarketSell 1, Telegram (SellMessage 100 0 50), Telegram (TakeProfitMessage 106)]) \<and>
   check_position_limits id calm_world calm_world open_strategy = (open_strategy, [])"
proof -
  let ?s0 = "open_strategy\<lparr>config := default_config\<lparr>stop_loss := 0, take_profit := 0\<rparr>\<rparr>"
  have s0: "position ?s0 = Some open_position" "current_rsi ?s0 = Some 50"
    "stop_loss (config ?s0) = 0" "take_profit (config ?s0) = 0"
    by (simp_all add: exit_inputs)
  have w: "fetch_ticker (calm_world\<lparr>time_now := 14401\<rparr>) = Inr 100"
    "time_now (calm_world\<lparr>time_now := 14401\<rparr>) = 14401"
    "\<And>x. fetch_ticker (calm_world\<lparr>fetch_ticker := Inr x\<rparr>) = Inr x"
    "\<And>x. time_now (calm_world\<lparr>fetch_ticker := Inr x\<rparr>) = 1000"
    by (simp_all add: exit_inputs)
  note t0 = C5_exit_priority [where s = ?s0 and p = open_position and fl = id
      and w = "calm_world\<lparr>time_now := 14401\<rparr>" and price = 100 and w' = calm_world]
  note t = C5_exit_priority [where s = open_strategy and p = open_position and fl = id
      and w' = calm_world]
  from t0 s0 w exit_inputs have e0: "execute_trade SELL calm_world ?s0 =
      (?s0\<lparr>position := None\<rparr>, [MarketSell 1, Telegram (SellMessage 100 0 50)])"
    by simp
  from t0 s0 w have "check_position_limits id (calm_world\<lparr>time_now := 14401\<rparr>) calm_world ?s0 =
      (fst (execute_trade SELL calm_world ?s0),
       snd (execute_trade SELL calm_world ?s0) @
         [Telegram (TimeExitMessage 100 (14401 / 3600))])"
    by (simp add: exit_thresholds_exact exit_inputs)
  with e0 have a: "check_position_limits id (calm_world\<lparr>time_now := 14401\<rparr>) calm_world ?s0 =
     (?s0\<lparr>position := None\<rparr>,
      [MarketSell 1, Telegram (SellMessage 100 0 50),
       Telegram (TimeExitMessage 100 (14401 / 3600))])"
    by simp
  from t [where w = calm_world and price = 100] exit_inputs
  have e: "execute_trade SELL calm_world open_strategy =
      (open_strategy\<lparr>position := None\<rparr>, [MarketSell 1, Telegram (SellMessage 100 0 50)])"
    by simp
  from t [where w = "calm_world\<lparr>fetch_ticker := Inr 97\<rparr>" and price = 97] w e
  have b: "check_position_limits id (calm_world\<lparr>fetch_ticker := Inr 97\<rparr>) calm_world
      open_strategy = (open_strategy\<lparr>position := None\<rparr>,
      [MarketSell 1, Telegram (SellMessage 100 0 50), Telegram (StopLossMessage 97)])"
    by (simp add: exit_thresholds_exact exit_inputs)
  from t [where w = "calm_world\<lparr>fetch_ticker := Inr 106\<rparr>" and price = 106] w e
  have c: "check_position_limits id (calm_world\<lparr>fetch_ticker := Inr 106\<rparr>) calm_world
      open_strategy = (open_strategy\<lparr>position := None\<rparr>,
      [MarketSell 1, Telegram (SellMessage 100 0 50), Telegram (TakeProfitMessage 106)])"
    by (simp add: exit_thresholds_exact exit_inputs)
  from t [where w = calm_world and price = 100]
  have d: "check_position_limits id calm_world calm_world open_strategy = (open_strategy, [])"
    by (simp add: exit_thresholds_exact exit_inputs)
  from a b c d show ?thesis by simp
qed

text \<open>
  C6, as stated, fails for a position older than 14400 seconds: the time-based exit
  comes first. Entry price 100, stop-loss 0.02, price 97.9, position 14401 seconds old:
  the stop-loss test holds, and the only exit announced is the time-based one.
\<close>

theorem C6_counterexample:
  "(979 / 10 :: real) \<le> 100 * (1 - 2 / 100) \<and>
   filter exit_message (snd (check_position_limits id
     (calm_world\<lparr>fetch_ticker := Inr (979 / 10), time_now := 14401\<rparr>) calm_world
     open_strategy)) = [Telegram (TimeExitMessage (979 / 10) (14401 / 3600))]"
proof -
  let ?w = "calm_world\<lparr>fetch_ticker := Inr (979 / 10), time_now := 14401\<rparr>"
  have w: "fetch_ticker ?w = Inr (979 / 10)" by simp
  have "snd (check_position_limits id ?w calm_world open_strategy) =
      snd (execute_trade SELL calm_world open_strategy) @
      [Telegram (TimeExitMessage (979 / 10) (14401 / 3600))]"
    unfolding check_position_limits_open [OF exit_inputs(1) w]
    by (simp add: exit_thresholds_exact exit_inputs)
  then show ?thesis
    by (simp add: execute_trade_no_exit_message)
qed

text \<open>
  C6, amended. With a position open, the ticker fetched and the position not older
  than 14400 seconds, the stop-loss exit happens (the check runs
  \<open>execute_trade("SELL")\<close> and announces the stop-loss) exactly when the price is at
  most the stop-loss threshold \<open>entry * (1 - stop_loss)\<close>; the take-profit exit
  happens exactly when the price is at least the take-profit threshold
  \<open>entry * (1 + take_profit)\<close> and the stop-loss test does not hold; otherwise the
  check does nothing. Both bounds are inclusive, and the thresholds are the values the
  float expressions compute. When the stop-loss threshold is strictly below the
  take-profit threshold the two tests exclude each other, and the take-profit exit
  happens exactly when the price is at least its threshold; in exact arithmetic this is
  so for a positive entry price and margins whose sum is positive. When the sale goes
  through, an exit leaves the strategy without a position.
\<close>

theorem C6_exit_thresholds:
  "position s = Some p \<and> fetch_ticker w = Inr price \<and>
   \<not> elapsed_time fl w p > 14400 \<longrightarrow>
     (check_position_limits fl w w' s =
        (fst (execute_trade SELL w' s),
         snd (execute_trade SELL w' s) @ [Telegram (StopLossMessage price)]) \<longleftrightarrow>
      price \<le> stop_loss_price fl (config s) (entry_price p)) \<and>
     (check_position_limits fl w w' s =
        (fst (execute_trade SELL w' s),
         snd (execute_trade SELL w' s) @ [Telegram (TakeProfitMessage price)]) \<longleftrightarrow>
      price \<ge> take_profit_price fl (config s) (entry_price p) \<and>
      \<not> price \<le> stop_loss_price fl (config s) (entry_price p)) \<and>
     (check_position_limits fl w w' s = (s, []) \<longleftrightarrow>
      \<not> price \<le> stop_loss_price fl (config s) (entry_price p) \<and>
      \<not> price \<ge> take_profit_price fl (config s) (entry_price p)) \<and>
     (stop_loss_price fl (config s) (entry_price p) <
        take_profit_price fl (config s) (entry_price p) \<longrightarrow>
        (check_position_limits fl w w' s =
           (fst (execute_trade SELL w' s),
            snd (execute_trade SELL w' s) @ [Telegram (TakeProfitMessage price)]) \<longleftrightarrow>
         price \<ge> take_profit_price fl (config s) (entry_price p))) \<and>
     (0 < entry_price p \<and> 0 < stop_loss (config s) + take_profit (config s) \<longrightarrow>
        stop_loss_price id (config s) (entry_price p) <
        take_profit_price id (config s) (entry_price p)) \<and>
     ((\<exists>x. Telegram (StopLossMessage x) \<in> set (snd (check_position_limits fl w w' s))) \<longleftrightarrow>
        price \<le> stop_loss_price fl (config s) (entry_price p)) \<and>
     ((\<exists>x. Telegram (TakeProfitMessage x) \<in> set (snd (check_position_limits fl w w' s))) \<longleftrightarrow>
        price \<ge> take_profit_price fl (config s) (entry_price p) \<and>
        \<not> price \<le> stop_loss_price fl (config s) (entry_price p)) \<and>
     (\<forall>price' r. fetch_ticker w' = Inr price' \<and>
        create_market_sell_order w' (amount p) = None \<and>
        entry_price p \<noteq> 0 \<and> current_rsi s = Some r \<longrightarrow>
        execute_trade SELL w' s =
          (s\<lparr>position := None\<rparr>,
           [MarketSell (amount p),
            Telegram (SellMessage price' ((price' / entry_price p - 1) * 100) r)]))"
proof
  assume h: "position s = Some p \<and> fetch_ticker w = Inr price \<and>
   \<not> elapsed_time fl w p > 14400"
  let ?S = "stop_loss_price fl (config s) (entry_price p)"
  let ?T = "take_profit_price fl (config s) (entry_price p)"
  let ?sl = "price \<le> ?S"
  let ?tp = "price \<ge> ?T"
  let ?E = "execute_trade SELL w' s"
  let ?c = "check_position_limits fl w w' s"
  let ?rs = "(fst ?E, snd ?E @ [Telegram (StopLossMessage price)])"
  let ?rt = "(fst ?E, snd ?E @ [Telegram (TakeProfitMessage price)])"
  from h have c: "?c = (if ?sl then ?rs else if ?tp then ?rt else (s, []))"
    by (simp add: check_position_limits_open)
  have n1: "\<And>x. Telegram (StopLossMessage x) \<notin> set (snd ?E)"
    using execute_trade_not_exit [of _ SELL w' s] by fastforce
  have n2: "\<And>x. Telegram (TakeProfitMessage x) \<notin> set (snd ?E)"
    using execute_trade_not_exit [of _ SELL w' s] by fastforce
  have d: "?rs \<noteq> ?rt" "?rs \<noteq> (s, [])" "?rt \<noteq> (s, [])" by simp_all
  have r1: "?c = ?rs \<longleftrightarrow> ?sl"
    unfolding c using d by auto
  have r2: "?c = ?rt \<longleftrightarrow> ?tp \<and> \<not> ?sl"
    unfolding c using d by auto
  have r3: "?c = (s, []) \<longleftrightarrow> \<not> ?sl \<and> \<not> ?tp"
    unfolding c using d by auto
  have r4: "?S < ?T \<longrightarrow> (?c = ?rt \<longleftrightarrow> ?tp)"
    using r2 by auto
  have r5: "0 < entry_price p \<and> 0 < stop_loss (config s) + take_profit (config s) \<longrightarrow>
      stop_loss_price id (config s) (entry_price p) <
      take_profit_price id (config s) (entry_price p)"
  proof
    assume q: "0 < entry_price p \<and> 0 < stop_loss (config s) + take_profit (config s)"
    then have "0 < entry_price p * (stop_loss (config s) + take_profit (config s))"
      by (simp add: mult_pos_pos)
    then have "entry_price p * (1 - stop_loss (config s)) <
        entry_price p * (1 + take_profit (config s))"
      by (simp add: algebra_simps)
    then show "stop_loss_price id (config s) (entry_price p) <
        take_profit_price id (config s) (entry_price p)"
      by (simp add: exit_thresholds_exact)
  qed
  have s1: "(\<exists>x. Telegram (StopLossMessage x) \<in> set (snd ?c)) \<longleftrightarrow> ?sl"
    unfolding c using n1 by auto
  have s2: "(\<exists>x. Telegram (TakeProfitMessage x) \<in> set (snd ?c)) \<longleftrightarrow> ?tp \<and> \<not> ?sl"
    unfolding c using n2 by auto
  have e: "\<forall>price' r. fetch_ticker w' = Inr price' \<and>
        create_market_sell_order w' (amount p) = None \<and>
        entry_price p \<noteq> 0 \<and> current_rsi s = Some r \<longrightarrow>
        ?E = (s\<lparr>position := None\<rparr>,
           [MarketSell (amount p),
            Telegram (SellMessage price' ((price' / entry_price p - 1) * 100) r)])"
    using h by (blast intro: execute_trade_sell_done)
  from r1 r2 r3 r4 r5 s1 s2 e
  show "(?c = ?rs \<longleftrightarrow> ?sl) \<and> (?c = ?rt \<longleftrightarrow> ?tp \<and> \<not> ?sl) \<and>
     (?c = (s, []) \<longleftrightarrow> \<not> ?sl \<and> \<not> ?tp) \<and>
     (?S < ?T \<longrightarrow> (?c = ?rt \<longleftrightarrow> ?tp)) \<and>
     (0 < entry_price p \<and> 0 < stop_loss (config s) + take_profit (config s) \<longrightarrow>
        stop_loss_price id (config s) (entry_price p) <
        take_profit_price id (config s) (entry_price p)) \<and>
     ((\<exists>x. Telegram (StopLossMessage x) \<in> set (snd ?c)) \<longleftrightarrow> ?sl) \<and>
     ((\<exists>x. Telegram (TakeProfitMessage x) \<in> set (snd ?c)) \<longleftrightarrow> ?tp \<and> \<not> ?sl) \<and>
     (\<forall>price' r. fetch_ticker w' = Inr price' \<and>
        create_market_sell_order w' (amount p) = None \<and>
        entry_price p \<noteq> 0 \<and> current_rsi s = Some r \<longrightarrow>
        ?E = (s\<lparr>position := None\<rparr>,
           [MarketSell (amount p),
            Telegram (SellMessage price' ((price' / entry_price p - 1) * 100) r)]))"
    by blast
qed

text \<open>
  In exact arithmetic, entry price 100, stop-loss 0.02, take-profit 0.05, position 1000
  seconds old, every call of the sale succeeding at price 100: the thresholds are 98
  and 105. The prices 97.9 and 98 sell with the stop-loss announcement and 98.1 does
  nothing; the prices 105.1 and 105 sell with the take-profit announcement and 104.9
  does nothing.
\<close>

theorem C6_exit_thresholds_witness:
  "stop_loss_price id default_config 100 = 98 \<and>
   take_profit_price id default_config 100 = 105 \<and>
   check_position_limits id (calm_world\<lparr>fetch_ticker := Inr (979 / 10)\<rparr>) calm_world
     open_strategy =
     (open_strategy\<lparr>position := None\<rparr>,
      [MarketSell 1, Telegram (SellMessage 100 0 50), Telegram (StopLossMessage (979 / 10))]) \<and>
   check_position_limits id (calm_world\<lparr>fetch_ticker := Inr 98\<rparr>) calm_world open_strategy =
     (open_strategy\<lparr>position := None\<rparr>,
      [MarketSell 1, Telegram (SellMessage 100 0 50), Telegram (StopLossMessage 98)]) \<and>
   check_position_limits id (calm_world\<lparr>fetch_ticker := Inr (981 / 10)\<rparr>) calm_world
     open_strategy = (open_strategy, []) \<and>
   check_position_limits id (calm_world\<lparr>fetch_ticker := Inr (1051 / 10)\<rparr>) calm_world
     open_strategy =
     (open_strategy\<lparr>position := None\<rparr>,
      [MarketSell 1, Telegram (SellMessage 100 0 50),
       Telegram (TakeProfitMessage (1051 / 10))]) \<and>
   check_position_limits id (calm_world\<lparr>fetch_ticker := Inr 105\<rparr>) calm_world open_strategy =
     (open_strategy\<lparr>position := None\<rparr>,
      [MarketSell 1, Telegram (SellMessage 100 0 50), Telegram (TakeProfitMessage 105)]) \<and>
   check_position_limits id (calm_world\<lparr>fetch_ticker := Inr (1049 / 10)\<rparr>) calm_world
     open_strategy = (open_strategy, [])"
proof -
  have th: "stop_loss_price id default_config 100 = 98"
    "take_profit_price id default_config 100 = 105"
    by (simp_all add: exit_thresholds_exact exit_inputs)
  have w: "\<And>x. fetch_ticker (calm_world\<lparr>fetch_ticker := Inr x\<rparr>) = Inr x"
    "\<And>x. elapsed_time id (calm_world\<lparr>fetch_ticker := Inr x\<rparr>) open_position = 1000"
    by (simp_all add: exit_thresholds_exact exit_inputs)
  note t = C6_exit_thresholds [where s = open_strategy and p = open_position and fl = id
      and w = "calm_world\<lparr>fetch_ticker := Inr x\<rparr>" and price = x and w' = calm_world for x]
  from t [of 100] w exit_inputs
  have e: "execute_trade SELL calm_world open_strategy =
      (open_strategy\<lparr>position := None\<rparr>, [MarketSell 1, Telegram (SellMessage 100 0 50)])"
    by simp
  have u: "\<And>x.
     (check_position_limits id (calm_world\<lparr>fetch_ticker := Inr x\<rparr>) calm_world open_strategy =
        (open_strategy\<lparr>position := None\<rparr>,
         [MarketSell 1, Telegram (SellMessage 100 0 50), Telegram (StopLossMessage x)]) \<longleftrightarrow>
      x \<le> 98) \<and>
     (check_position_limits id (calm_world\<lparr>fetch_ticker := Inr x\<rparr>) calm_world open_strategy =
        (open_strategy\<lparr>position := None\<rparr>,
         [MarketSell 1, Telegram (SellMessage 100 0 50), Telegram (TakeProfitMessage x)]) \<longleftrightarrow>
      x \<ge> 105 \<and> \<not> x \<le> 98) \<and>
     (check_position_limits id (calm_world\<lparr>fetch_ticker := Inr x\<rparr>) calm_world open_strategy =
        (open_strategy, []) \<longleftrightarrow> \<not> x \<le> 98 \<and> \<not> x \<ge> 105)"
  proof -
    fix x
    from t [of x] w have "
     (check_position_limits id (calm_world\<lparr>fetch_ticker := Inr x\<rparr>) calm_world open_strategy =
        (fst (execute_trade SELL calm_world open_strategy),
         snd (execute_trade SELL calm_world open_strategy) @
           [Telegram (StopLossMessage x)]) \<longleftrightarrow>
      x \<le> stop_loss_price id (config open_strategy) (entry_price open_position)) \<and>
     (check_position_limits id (calm_world\<lparr>fetch_ticker := Inr x\<rparr>) calm_world open_strategy =
        (fst (execute_trade SELL calm_world open_strategy),
         snd (execute_trade SELL calm_world open_strategy) @
           [Telegram (TakeProfitMessage x)]) \<longleftrightarrow>
      x \<ge> take_profit_price id (config open_strategy) (entry_price open_position) \<and>
      \<not> x \<le> stop_loss_price id (config open_strategy) (entry_price open_position)) \<and>
     (check_position_limits id (calm_world\<lparr>fetch_ticker := Inr x\<rparr>) calm_world open_strategy =
        (open_strategy, []) \<longleftrightarrow>
      \<not> x \<le> stop_loss_price id (config open_strategy) (entry_price open_position) \<and>
      \<not> x \<ge> take_profit_price id (config open_strategy) (entry_price open_position))"
      by (simp add: exit_inputs(1))
    then show "
     (check_position_limits id (calm_world\<lparr>fetch_ticker := Inr x\<rparr>) calm_world open_strategy =
        (open_strategy\<lparr>position := None\<rparr>,
         [MarketSell 1, Telegram (SellMessage 100 0 50), Telegram (StopLossMessage x)]) \<longleftrightarrow>
      x \<le> 98) \<and>
     (check_position_limits id (calm_world\<lparr>fetch_ticker := Inr x\<rparr>) calm_world open_strategy =
        (open_strategy\<lparr>position := None\<rparr>,
         [MarketSell 1, Telegram (SellMessage 100 0 50), Telegram (TakeProfitMessage x)]) \<longleftrightarrow>
      x \<ge> 105 \<and> \<not> x \<le> 98) \<and>
     (check_position_limits id (calm_world\<lparr>fetch_ticker := Inr x\<rparr>) calm_world open_strategy =
        (open_strategy, []) \<longleftrightarrow> \<not> x \<le> 98 \<and> \<not> x \<ge> 105)"
      unfolding e exit_inputs(3) exit_inputs(4) th by simp
  qed
  from u [of "979 / 10"] have a: "check_position_limits id
      (calm_world\<lparr>fetch_ticker := Inr (979 / 10)\<rparr>) calm_world open_strategy =
     (open_strategy\<lparr>position := None\<rparr>,
      [MarketSell 1, Telegram (SellMessage 100 0 50), Telegram (StopLossMessage (979 / 10))])"
    by simp
  from u [of 98] have b: "check_position_limits id
      (calm_world\<lparr>fetch_ticker := Inr 98\<rparr>) calm_world open_strategy =
     (open_strategy\<lparr>position := None\<rparr>,
      [MarketSell 1, Telegram (SellMessage 100 0 50), Telegram (StopLossMessage 98)])"
    by simp
  from u [of "981 / 10"] have c: "check_position_limits id
      (calm_world\<lparr>fetch_ticker := Inr (981 / 10)\<rparr>) calm_world open_strategy =
      (open_strategy, [])"
    by simp
  from u [of "1051 / 10"] have d: "check_position_limits id
      (calm_world\<lparr>fetch_ticker := Inr (1051 / 10)\<rparr>) calm_world open_strategy =
     (open_strategy\<lparr>position := None\<rparr>,
      [MarketSell 1, Telegram (SellMessage 100 0 50),
       Telegram (TakeProfitMessage (1051 / 10))])"
    by simp
  from u [of 105] have f: "check_position_limits id
      (calm_world\<lparr>fetch_ticker := Inr 105\<rparr>) calm_world open_strategy =
     (open_strategy\<lparr>position := None\<rparr>,
      [MarketSell 1, Telegram (SellMessage 100 0 50), Telegram (TakeProfitMessage 105)])"
    by simp
  from u [of "1049 / 10"] have g: "check_position_limits id
      (calm_world\<lparr>fetch_ticker := Inr (1049 / 10)\<rparr>) calm_world open_strategy =
      (open_strategy, [])"
    by simp
  from th a b c d f g show ?thesis by simp
qed

end
